theory Spec2Isabelle
  imports Main "HOL-Library.Word" "HOL-Library.Sublist" "HOL-Library.Product_Lexorder"
    "HOL-Library.List_Lexorder"
begin

section \<open>JavaScript values used by the server\<close>

text \<open>
  A JavaScript string is a sequence of 16-bit code units. String literals of the
  source are written \<open>js ''...''\<close>: every ASCII character becomes its code unit.
\<close>

type_synonym jschar = "16 word"
type_synonym jsstring = "jschar list"

definition js :: "string \<Rightarrow> jsstring" where
  "js s = map of_char s"

text \<open>
  Exceptions of the source are values: \<open>URIError\<close> is thrown by
  \<open>encodeURIComponent\<close> on a lone surrogate, \<open>RangeError\<close> by \<open>toISOString\<close> on an
  invalid date, \<open>TypeError\<close> by the conversion of an object to a primitive value,
  \<open>Error msg\<close> is \<open>new Error(msg)\<close>.
\<close>

datatype error = URIError | RangeError | TypeError | Error jsstring

definition bindE :: "error + 'a \<Rightarrow> ('a \<Rightarrow> error + 'b) \<Rightarrow> error + 'b" where
  "bindE m f = (case m of Inl e \<Rightarrow> Inl e | Inr x \<Rightarrow> f x)"

text \<open>\<open>Array.prototype.join\<close> on an array of strings.\<close>

fun join :: "jsstring \<Rightarrow> jsstring list \<Rightarrow> jsstring" where
  "join sep [] = []"
| "join sep [x] = x"
| "join sep (x # y # ys) = x @ sep @ join sep (y # ys)"

section \<open>url.ts: the command URL builder\<close>

datatype ThingsCommand =
  Add | AddProject | Update | UpdateProject | Show | Search | Version | Json

fun commandName :: "ThingsCommand \<Rightarrow> jsstring" where
  "commandName Add = js ''add''"
| "commandName AddProject = js ''add-project''"
| "commandName Update = js ''update''"
| "commandName UpdateProject = js ''update-project''"
| "commandName Show = js ''show''"
| "commandName Search = js ''search''"
| "commandName Version = js ''version''"
| "commandName Json = js ''json''"

text \<open>\<open>type ParamValue = string | boolean | undefined\<close>\<close>

datatype ParamValue = Str jsstring | Bool bool | Undefined

subsection \<open>encodeURIComponent\<close>

text \<open>
  The built-in \<open>encodeURIComponent\<close> (ECMAScript \<open>Encode\<close> with the unreserved set
  \<open>A-Z a-z 0-9 - _ . ! ~ * ' ( )\<close>): an unreserved code unit is copied; any other
  code point is written as the percent-escaped octets of its UTF-8 form, with
  upper-case hexadecimal digits; a surrogate that is not part of a pair throws
  \<open>URIError\<close>.
\<close>

definition uriUnreserved :: "jschar \<Rightarrow> bool" where
  "uriUnreserved c \<longleftrightarrow>
     (0x41 \<le> c \<and> c \<le> 0x5A) \<or> (0x61 \<le> c \<and> c \<le> 0x7A) \<or> (0x30 \<le> c \<and> c \<le> 0x39) \<or>
     c \<in> {0x2D, 0x5F, 0x2E, 0x21, 0x7E, 0x2A, 0x27, 0x28, 0x29}"

definition isLeadSurrogate :: "jschar \<Rightarrow> bool" where
  "isLeadSurrogate c \<longleftrightarrow> 0xD800 \<le> c \<and> c \<le> 0xDBFF"

definition isTrailSurrogate :: "jschar \<Rightarrow> bool" where
  "isTrailSurrogate c \<longleftrightarrow> 0xDC00 \<le> c \<and> c \<le> 0xDFFF"

definition hexDigit :: "nat \<Rightarrow> jschar" where
  "hexDigit n = js ''0123456789ABCDEF'' ! (n mod 16)"

definition pctOctet :: "nat \<Rightarrow> jsstring" where
  "pctOctet b = [0x25, hexDigit (b div 16), hexDigit (b mod 16)]"

definition utf8 :: "nat \<Rightarrow> nat list" where
  "utf8 cp =
     (if cp < 0x80 then [cp]
      else if cp < 0x800 then [0xC0 + cp div 64, 0x80 + cp mod 64]
      else if cp < 0x10000 then
        [0xE0 + cp div 4096, 0x80 + (cp div 64) mod 64, 0x80 + cp mod 64]
      else
        [0xF0 + cp div 262144, 0x80 + (cp div 4096) mod 64,
         0x80 + (cp div 64) mod 64, 0x80 + cp mod 64])"

definition pctCodePoint :: "nat \<Rightarrow> jsstring" where
  "pctCodePoint cp = concat (map pctOctet (utf8 cp))"

definition pairCodePoint :: "jschar \<Rightarrow> jschar \<Rightarrow> nat" where
  "pairCodePoint hi lo = (unat hi - 0xD800) * 0x400 + (unat lo - 0xDC00) + 0x10000"

fun encodeURIComponent :: "jsstring \<Rightarrow> error + jsstring" where
  "encodeURIComponent [] = Inr []"
| "encodeURIComponent [c] =
     (if uriUnreserved c then Inr [c]
      else if isLeadSurrogate c \<or> isTrailSurrogate c then Inl URIError
      else Inr (pctCodePoint (unat c)))"
| "encodeURIComponent (c # d # ds) =
     (if uriUnreserved c then bindE (encodeURIComponent (d # ds)) (\<lambda>r. Inr (c # r))
      else if isTrailSurrogate c then Inl URIError
      else if isLeadSurrogate c then
        (if isTrailSurrogate d
         then bindE (encodeURIComponent ds) (\<lambda>r. Inr (pctCodePoint (pairCodePoint c d) @ r))
         else Inl URIError)
      else bindE (encodeURIComponent (d # ds)) (\<lambda>r. Inr (pctCodePoint (unat c) @ r)))"

text \<open>\<open>function encode(value) { return encodeURIComponent(value); }\<close>\<close>

definition encode :: "jsstring \<Rightarrow> error + jsstring" where
  "encode v = encodeURIComponent v"

subsection \<open>buildUrl\<close>

text \<open>
  The loop over \<open>Object.entries(params)\<close>: \<open>params\<close> is the list of entries in
  iteration order, \<open>parts\<close> the array built so far.
\<close>

fun buildParts :: "(jsstring \<times> ParamValue) list \<Rightarrow> jsstring list \<Rightarrow> error + jsstring list" where
  "buildParts [] parts = Inr parts"
| "buildParts ((key, Undefined) # rest) parts = buildParts rest parts"
| "buildParts ((key, Bool b) # rest) parts =
     bindE (encode key) (\<lambda>k.
       buildParts rest (parts @ [k @ js ''='' @ (if b then js ''true'' else js ''false'')]))"
| "buildParts ((key, Str s) # rest) parts =
     bindE (encode key) (\<lambda>k. bindE (encode s) (\<lambda>v.
       buildParts rest (parts @ [k @ js ''='' @ v])))"

definition authParts :: "jsstring option \<Rightarrow> error + jsstring list" where
  "authParts authToken =
     (case authToken of
        None \<Rightarrow> Inr []
      | Some tok \<Rightarrow>
          if tok \<noteq> [] then bindE (encode tok) (\<lambda>t. Inr [js ''auth-token='' @ t])
          else Inr [])"

definition buildUrl ::
  "ThingsCommand \<Rightarrow> (jsstring \<times> ParamValue) list \<Rightarrow> jsstring option \<Rightarrow> error + jsstring" where
  "buildUrl command params authToken =
     bindE (authParts authToken) (\<lambda>parts0.
     bindE (buildParts params parts0) (\<lambda>parts.
       let query = join (js ''&'') parts in
       Inr (if query \<noteq> []
            then js ''things:///x-callback-url/'' @ commandName command @ js ''?'' @ query
            else js ''things:///x-callback-url/'' @ commandName command)))"

subsection \<open>buildJsonUrl\<close>

text \<open>
  \<open>buildJsonUrl\<close>. The first argument is the text \<open>JSON.stringify(items)\<close>; the
  \<open>data\<close> part comes first, then the credential when it is truthy, then \<open>reveal\<close>.
\<close>

definition buildJsonUrl :: "jsstring \<Rightarrow> jsstring option \<Rightarrow> bool option \<Rightarrow> error + jsstring" where
  "buildJsonUrl itemsJson authToken reveal =
     bindE (encodeURIComponent itemsJson) (\<lambda>data.
     bindE (authParts authToken) (\<lambda>auth.
       Inr (js ''things:///x-callback-url/json?'' @
            join (js ''&'')
              ([js ''data='' @ data] @ auth @
               (if reveal = Some True then [js ''reveal=true''] else [])))))"

subsection \<open>toDirectUrl\<close>

text \<open>
  \<open>String.prototype.replace\<close> with a string pattern replaces the first occurrence
  only; the replacement \<open>things:///\<close> has no \<open>$\<close> pattern.
\<close>

fun replaceFirst :: "jsstring \<Rightarrow> jsstring \<Rightarrow> jsstring \<Rightarrow> jsstring" where
  "replaceFirst pat rep [] = (if pat = [] then rep else [])"
| "replaceFirst pat rep (c # cs) =
     (if prefix pat (c # cs) then rep @ drop (length pat) (c # cs)
      else c # replaceFirst pat rep cs)"

definition toDirectUrl :: "jsstring \<Rightarrow> jsstring" where
  "toDirectUrl url = replaceFirst (js ''things:///x-callback-url/'') (js ''things:///'') url"

subsection \<open>Vocabulary for the properties of the URL builder\<close>

text \<open>
  A string is well formed when it has no lone surrogate
  (\<open>String.prototype.isWellFormed\<close>); these are the strings that
  \<open>encodeURIComponent\<close> accepts.
\<close>

fun wellFormed :: "jsstring \<Rightarrow> bool" where
  "wellFormed [] = True"
| "wellFormed [c] = (\<not> isLeadSurrogate c \<and> \<not> isTrailSurrogate c)"
| "wellFormed (c # d # ds) =
     (if isLeadSurrogate c then isTrailSurrogate d \<and> wellFormed ds
      else \<not> isTrailSurrogate c \<and> wellFormed (d # ds))"

text \<open>
  \<open>pct s\<close> is the percent-encoded form of a well-formed string, \<open>emit\<close> the text of one
  parameter whose value is defined, \<open>queryString\<close> the query of a URL with the given parts.
\<close>

definition pct :: "jsstring \<Rightarrow> jsstring" where
  "pct s = (case encodeURIComponent s of Inr e \<Rightarrow> e | Inl _ \<Rightarrow> [])"

fun isDefined :: "jsstring \<times> ParamValue \<Rightarrow> bool" where
  "isDefined (k, Undefined) = False"
| "isDefined (k, v) = True"

fun emit :: "jsstring \<times> ParamValue \<Rightarrow> jsstring" where
  "emit (k, Str s) = pct k @ js ''='' @ pct s"
| "emit (k, Bool b) = pct k @ js ''='' @ (if b then js ''true'' else js ''false'')"
| "emit (k, Undefined) = []"

fun wellFormedParam :: "jsstring \<times> ParamValue \<Rightarrow> bool" where
  "wellFormedParam (k, Str s) = (wellFormed k \<and> wellFormed s)"
| "wellFormedParam (k, Bool b) = wellFormed k"
| "wellFormedParam (k, Undefined) = True"

definition queryString :: "jsstring list \<Rightarrow> jsstring" where
  "queryString parts = (if parts = [] then [] else js ''?'' @ join (js ''&'') parts)"

text \<open>A string is \<open>urlSafe\<close> when it has neither a colon nor a slash.\<close>

definition urlSafe :: "jsstring \<Rightarrow> bool" where
  "urlSafe s \<longleftrightarrow> 0x3A \<notin> set s \<and> 0x2F \<notin> set s"

section \<open>url.ts: parsing the output of the capturing helper\<close>

text \<open>
  A value returned by \<open>JSON.parse\<close>. The members of \<open>JObj\<close> are the entries of the
  object in the order of \<open>Object.entries\<close>. Numbers are kept abstract (\<open>'n\<close>): their
  text is given by a parameter \<open>numToString\<close>.
\<close>

datatype 'n json =
  JNull | JBool bool | JNum 'n | JStr jsstring | JArr "'n json list"
| JObj "(jsstring \<times> 'n json) list"

text \<open>
  \<open>String(value)\<close>. An array is joined with commas, \<open>null\<close> elements giving the empty
  string. A plain object gives \<open>[object Object]\<close> through \<open>Object.prototype.toString\<close>;
  when it has a member named \<open>toString\<close> of its own, that member is not callable and
  the conversion throws \<open>TypeError\<close>.
\<close>

fun toStringJS :: "('n \<Rightarrow> jsstring) \<Rightarrow> 'n json \<Rightarrow> error + jsstring"
  and elementStrings :: "('n \<Rightarrow> jsstring) \<Rightarrow> 'n json list \<Rightarrow> error + jsstring list" where
  "toStringJS numToString JNull = Inr (js ''null'')"
| "toStringJS numToString (JBool b) = Inr (if b then js ''true'' else js ''false'')"
| "toStringJS numToString (JNum n) = Inr (numToString n)"
| "toStringJS numToString (JStr s) = Inr s"
| "toStringJS numToString (JArr xs) =
     bindE (elementStrings numToString xs) (\<lambda>ss. Inr (join (js '','') ss))"
| "toStringJS numToString (JObj members) =
     (if js ''toString'' \<in> fst ` set members then Inl TypeError
      else Inr (js ''[object Object]''))"
| "elementStrings numToString [] = Inr []"
| "elementStrings numToString (x # xs) =
     bindE (if x = JNull then Inr [] else toStringJS numToString x) (\<lambda>s.
     bindE (elementStrings numToString xs) (\<lambda>ss. Inr (s # ss)))"

record ExecuteResult =
  success :: bool
  thingsId :: "jsstring option"
  callbackParams :: "(jsstring \<rightharpoonup> jsstring) option"

text \<open>\<open>.map(([key, value]) => [key, String(value)])\<close>\<close>

fun mapEntries ::
  "('n \<Rightarrow> jsstring) \<Rightarrow> (jsstring \<times> 'n json) list \<Rightarrow> error + (jsstring \<times> jsstring) list" where
  "mapEntries numToString [] = Inr []"
| "mapEntries numToString ((key, value) # rest) =
     bindE (toStringJS numToString value) (\<lambda>s.
     bindE (mapEntries numToString rest) (\<lambda>r. Inr ((key, s) # r)))"

text \<open>\<open>Object.fromEntries\<close>: a later entry overwrites an earlier one with the same key.\<close>

definition fromEntries :: "(jsstring \<times> jsstring) list \<Rightarrow> (jsstring \<rightharpoonup> jsstring)" where
  "fromEntries entries = fold (\<lambda>(key, value) m. m(key \<mapsto> value)) entries Map.empty"

text \<open>
  \<open>parseXcallOutput\<close>. \<open>JSON_parse\<close> is the built-in parser, \<open>None\<close> when it throws.
  The test \<open>parsed && typeof parsed === "object" && !Array.isArray(parsed)\<close> holds for
  \<open>JObj\<close> only. Everything thrown inside the \<open>try\<close> block is caught and leads to the
  last \<open>return\<close>.
\<close>

definition parseXcallOutput ::
  "(jsstring \<Rightarrow> 'n json option) \<Rightarrow> ('n \<Rightarrow> jsstring) \<Rightarrow> jsstring \<Rightarrow> ExecuteResult" where
  "parseXcallOutput JSON_parse numToString rawOutput =
     (if rawOutput = [] then \<lparr>success = True, thingsId = None, callbackParams = None\<rparr>
      else
        (case JSON_parse rawOutput of
           Some (JObj members) \<Rightarrow>
             (case mapEntries numToString (filter (\<lambda>(key, value). value \<noteq> JNull) members) of
                Inr entries \<Rightarrow>
                  (let params = fromEntries entries in
                   \<lparr>success = True,
                    thingsId =
                      (case params (js ''x-things-id'') of
                         Some i \<Rightarrow> Some i
                       | None \<Rightarrow> params (js ''x-things-ids'')),
                    callbackParams = Some params\<rparr>)
              | Inl e \<Rightarrow> \<lparr>success = True, thingsId = Some rawOutput, callbackParams = None\<rparr>)
         | _ \<Rightarrow> \<lparr>success = True, thingsId = Some rawOutput, callbackParams = None\<rparr>))"

subsection \<open>Vocabulary for the properties of the parser\<close>

text \<open>
  \<open>coercible\<close>: \<open>String(value)\<close> returns; \<open>coerced\<close>: its result;
  \<open>expectedFields\<close>: the mapping that sends the key of every member that is not
  \<open>null\<close> to the string form of its value.
\<close>

definition coercible :: "('n \<Rightarrow> jsstring) \<Rightarrow> 'n json \<Rightarrow> bool" where
  "coercible numToString v = (case toStringJS numToString v of Inr s \<Rightarrow> True | Inl e \<Rightarrow> False)"

definition coerced :: "('n \<Rightarrow> jsstring) \<Rightarrow> 'n json \<Rightarrow> jsstring" where
  "coerced numToString v = (case toStringJS numToString v of Inr s \<Rightarrow> s | Inl e \<Rightarrow> [])"

definition expectedFields ::
  "('n \<Rightarrow> jsstring) \<Rightarrow> (jsstring \<times> 'n json) list \<Rightarrow> (jsstring \<rightharpoonup> jsstring)" where
  "expectedFields numToString members key =
     (case map_of members key of
        None \<Rightarrow> None
      | Some v \<Rightarrow> if v = JNull then None else Some (coerced numToString v))"

text \<open>
  Example outputs of the helper: \<open>{"x-things-ids":"a,b","n":null}\<close>,
  \<open>{"x-things-id":"abc","d":{"toString":""}}\<close> and the JSON string \<open>"abc"\<close>; the
  results of \<open>JSON.parse\<close> on them, and on text that is not JSON.
\<close>

definition quoted :: "jsstring \<Rightarrow> jsstring" where
  "quoted s = [0x22] @ s @ [0x22]"

definition exampleOutput :: jsstring where
  "exampleOutput =
     js ''{'' @ quoted (js ''x-things-ids'') @ js '':'' @ quoted (js ''a,b'') @ js '','' @
     quoted (js ''n'') @ js '':null}''"

definition exampleMembers :: "(jsstring \<times> int json) list" where
  "exampleMembers = [(js ''x-things-ids'', JStr (js ''a,b'')), (js ''n'', JNull)]"

definition exampleNested :: jsstring where
  "exampleNested =
     js ''{'' @ quoted (js ''x-things-id'') @ js '':'' @ quoted (js ''abc'') @ js '','' @
     quoted (js ''d'') @ js '':{'' @ quoted (js ''toString'') @ js '':'' @ quoted [] @ js ''}}''"

definition exampleNestedMembers :: "(jsstring \<times> int json) list" where
  "exampleNestedMembers =
     [(js ''x-things-id'', JStr (js ''abc'')), (js ''d'', JObj [(js ''toString'', JStr [])])]"

definition exampleParse :: "jsstring \<Rightarrow> int json option" where
  "exampleParse s =
     (if s = exampleOutput then Some (JObj exampleMembers)
      else if s = exampleNested then Some (JObj exampleNestedMembers)
      else if s = quoted (js ''abc'') then Some (JStr (js ''abc''))
      else None)"

section \<open>db.ts: date utilities\<close>

text \<open>
  Numbers that hold whole seconds, days or milliseconds are integers. The arithmetic
  of the source on them is exact as long as the resulting time value is valid, and a
  product too large to be exact is far outside the valid range as well. Timestamps
  with a fractional part are not covered.
\<close>

definition CORE_DATA_EPOCH :: int where
  "CORE_DATA_EPOCH = 978307200"

text \<open>
  \<open>new Date(ms)\<close>: the time value, or \<open>None\<close> for an invalid date (\<open>TimeClip\<close>
  rejects more than 8.64e15 milliseconds on either side of the Unix epoch).
\<close>

definition newDate :: "int \<Rightarrow> int option" where
  "newDate ms = (if \<bar>ms\<bar> \<le> 8640000000000000 then Some ms else None)"

text \<open>
  The UTC calendar fields of a day number (days since 1970-01-01) in the proleptic
  Gregorian calendar: year, month (1 to 12) and day of the month.
\<close>

definition civilFromDays :: "int \<Rightarrow> int \<times> int \<times> int" where
  "civilFromDays days =
     (let z = days + 719468;
          era = z div 146097;
          doe = z - era * 146097;
          yoe = (doe - doe div 1460 + doe div 36524 - doe div 146096) div 365;
          y = yoe + era * 400;
          doy = doe - (365 * yoe + yoe div 4 - yoe div 100);
          mp = (5 * doy + 2) div 153;
          d = doy - (153 * mp + 2) div 5 + 1;
          m = (if mp < 10 then mp + 3 else mp - 9)
      in (if m \<le> 2 then y + 1 else y, m, d))"

definition getUTCFullYear :: "int \<Rightarrow> int" where
  "getUTCFullYear t = fst (civilFromDays (t div 86400000))"

definition getUTCMonth :: "int \<Rightarrow> int" where
  "getUTCMonth t = fst (snd (civilFromDays (t div 86400000))) - 1"

definition getUTCDate :: "int \<Rightarrow> int" where
  "getUTCDate t = snd (snd (civilFromDays (t div 86400000)))"

text \<open>Decimal text of a number, \<open>String(n)\<close> for an integer, and \<open>padStart\<close>.\<close>

fun digits :: "nat \<Rightarrow> jsstring" where
  "digits n =
     (if n < 10 then [js ''0123456789'' ! n]
      else digits (n div 10) @ [js ''0123456789'' ! (n mod 10)])"

declare digits.simps [simp del]

definition numberString :: "int \<Rightarrow> jsstring" where
  "numberString i = (if i < 0 then js ''-'' @ digits (nat (- i)) else digits (nat i))"

definition padStart :: "nat \<Rightarrow> jschar \<Rightarrow> jsstring \<Rightarrow> jsstring" where
  "padStart n c s = replicate (n - length s) c @ s"

text \<open>
  \<open>Date.prototype.toISOString\<close> of a valid time value: four digits for the years 0
  to 9999, a sign and six digits otherwise.
\<close>

definition isoYear :: "int \<Rightarrow> jsstring" where
  "isoYear y =
     (if 0 \<le> y \<and> y \<le> 9999 then padStart 4 0x30 (digits (nat y))
      else (if y < 0 then js ''-'' else js ''+'') @ padStart 6 0x30 (digits (nat \<bar>y\<bar>)))"

definition pad2 :: "int \<Rightarrow> jsstring" where
  "pad2 i = padStart 2 0x30 (digits (nat i))"

definition toISOString :: "int \<Rightarrow> jsstring" where
  "toISOString t =
     isoYear (getUTCFullYear t) @ js ''-'' @ pad2 (getUTCMonth t + 1) @ js ''-'' @
     pad2 (getUTCDate t) @ js ''T'' @
     pad2 ((t div 3600000) mod 24) @ js '':'' @ pad2 ((t div 60000) mod 60) @ js '':'' @
     pad2 ((t div 1000) mod 60) @ js ''.'' @ padStart 3 0x30 (digits (nat (t mod 1000))) @
     js ''Z''"

text \<open>
  \<open>coreDataTimestampToISO\<close>: \<open>toISOString\<close> throws \<open>RangeError\<close> on an invalid date.
\<close>

definition coreDataTimestampToISO :: "int \<Rightarrow> error + jsstring" where
  "coreDataTimestampToISO timestamp =
     (case newDate ((timestamp + CORE_DATA_EPOCH) * 1000) of
        None \<Rightarrow> Inl RangeError
      | Some t \<Rightarrow> Inr (toISOString t))"

text \<open>
  \<open>dayIntegerToDate\<close>: on an invalid date the three getters return \<open>NaN\<close> and the
  template gives \<open>NaN-NaN-NaN\<close>; nothing is thrown.
\<close>

definition dayIntegerToDate :: "int \<Rightarrow> jsstring" where
  "dayIntegerToDate dayInt =
     (let ms = (dayInt * 86400 + CORE_DATA_EPOCH) * 1000 in
      case newDate ms of
        None \<Rightarrow> js ''NaN'' @ js ''-'' @ js ''NaN'' @ js ''-'' @ js ''NaN''
      | Some d \<Rightarrow>
          (let year = getUTCFullYear d;
               month = padStart 2 0x30 (numberString (getUTCMonth d + 1));
               day = padStart 2 0x30 (numberString (getUTCDate d))
           in numberString year @ js ''-'' @ month @ js ''-'' @ day))"

section \<open>db.ts: the read model\<close>

subsection \<open>Types\<close>

datatype TodoStatus = Open | Completed | Canceled

datatype StartBucket = Inbox | Anytime | Someday

record ChecklistItem =
  ci_uuid :: jsstring
  ci_title :: jsstring
  ci_completed :: bool

record Todo =
  uuid :: jsstring
  title :: jsstring
  "notes" :: jsstring
  status :: TodoStatus
  start :: "StartBucket option"
  startDate :: "jsstring option"
  deadline :: "jsstring option"
  todayIndex :: int
  projectId :: "jsstring option"
  projectTitle :: "jsstring option"
  areaId :: "jsstring option"
  areaTitle :: "jsstring option"
  headingId :: "jsstring option"
  headingTitle :: "jsstring option"
  creationDate :: jsstring
  modificationDate :: "jsstring option"
  completionDate :: "jsstring option"
  tags :: "jsstring list"
  checklistItems :: "ChecklistItem list"

record Project =
  pj_uuid :: jsstring
  pj_title :: jsstring
  pj_notes :: jsstring
  pj_status :: TodoStatus
  pj_start :: "StartBucket option"
  pj_startDate :: "jsstring option"
  pj_deadline :: "jsstring option"
  pj_areaId :: "jsstring option"
  pj_areaTitle :: "jsstring option"
  pj_creationDate :: jsstring
  pj_modificationDate :: "jsstring option"
  pj_completionDate :: "jsstring option"
  pj_tags :: "jsstring list"
  pj_openTodoCount :: int
  pj_totalTodoCount :: int

text \<open>\<open>ProjectDetail\<close>: the fields of a project, its headings and its to-dos.\<close>

record ProjectDetail =
  p_uuid :: jsstring
  p_title :: jsstring
  p_notes :: jsstring
  p_status :: TodoStatus
  p_start :: "StartBucket option"
  p_startDate :: "jsstring option"
  p_deadline :: "jsstring option"
  p_areaId :: "jsstring option"
  p_areaTitle :: "jsstring option"
  p_creationDate :: jsstring
  p_modificationDate :: "jsstring option"
  p_completionDate :: "jsstring option"
  p_tags :: "jsstring list"
  headings :: "(jsstring \<times> jsstring) list"
  todos :: "Todo list"

record Area =
  ar_uuid :: jsstring
  ar_title :: jsstring
  ar_visible :: bool

record Tag =
  tg_uuid :: jsstring
  tg_title :: jsstring
  tg_shortcut :: "jsstring option"
  tg_parentTag :: "jsstring option"

datatype TodoList =
  ListInbox | ListToday | ListAnytime | ListSomeday | ListUpcoming | ListLogbook | ListTrash

record TodoFilters =
  f_list :: "TodoList option"
  f_projectId :: "jsstring option"
  f_areaId :: "jsstring option"
  f_tag :: "jsstring option"
  f_search :: "jsstring option"
  f_status :: "TodoStatus option"
  f_limit :: "int option"

record ProjectFilters =
  pf_status :: "TodoStatus option"
  pf_areaId :: "jsstring option"
  pf_search :: "jsstring option"
  pf_limit :: "int option"

subsection \<open>The store\<close>

text \<open>
  The tables of the Things database that the queries read, each a list of rows in
  storage order. A column that the row interfaces of the source declare as
  \<open>T | null\<close> is an option; \<open>NULL\<close> is \<open>None\<close>. Timestamps are whole seconds.
\<close>

record TMTask =
  t_uuid :: jsstring
  t_title :: jsstring
  t_notes :: "jsstring option"
  t_type :: int
  t_status :: int
  t_start :: "int option"
  t_startDate :: "int option"
  t_deadline :: "int option"
  t_todayIndex :: int
  t_project :: "jsstring option"
  t_area :: "jsstring option"
  t_heading :: "jsstring option"
  t_trashed :: int
  t_creationDate :: int
  t_userModificationDate :: "int option"
  t_stopDate :: "int option"
  t_index :: int

record TMArea =
  a_uuid :: jsstring
  a_title :: jsstring
  a_visible :: int
  a_index :: int

record TMTag =
  g_uuid :: jsstring
  g_title :: jsstring
  g_shortcut :: "jsstring option"
  g_parent :: "jsstring option"

record TMTaskTag =
  tt_tasks :: jsstring
  tt_tags :: jsstring

record TMChecklistItem =
  c_uuid :: jsstring
  c_title :: jsstring
  c_status :: int
  c_task :: jsstring
  c_index :: int

record database =
  db_TMTask :: "TMTask list"
  db_TMArea :: "TMArea list"
  db_TMTag :: "TMTag list"
  db_TMTaskTag :: "TMTaskTag list"
  db_TMChecklistItem :: "TMChecklistItem list"

text \<open>\<open>interface RawTodoRow\<close> and \<open>interface RawProjectRow\<close>\<close>

record RawTodoRow =
  r_uuid :: jsstring
  r_title :: jsstring
  r_notes :: "jsstring option"
  r_status :: int
  r_start :: "int option"
  r_startDate :: "int option"
  r_deadline :: "int option"
  r_todayIndex :: int
  r_projectId :: "jsstring option"
  r_projectTitle :: "jsstring option"
  r_areaId :: "jsstring option"
  r_areaTitle :: "jsstring option"
  r_headingId :: "jsstring option"
  r_headingTitle :: "jsstring option"
  r_creationDate :: int
  r_modificationDate :: "int option"
  r_completionDate :: "int option"

record RawProjectRow =
  pr_uuid :: jsstring
  pr_title :: jsstring
  pr_notes :: "jsstring option"
  pr_status :: int
  pr_start :: "int option"
  pr_startDate :: "int option"
  pr_deadline :: "int option"
  pr_areaId :: "jsstring option"
  pr_areaTitle :: "jsstring option"
  pr_creationDate :: int
  pr_modificationDate :: "int option"
  pr_completionDate :: "int option"
  pr_openTodoCount :: "int option"
  pr_totalTodoCount :: "int option"

subsection \<open>The SQL operators the queries use\<close>

text \<open>
  \<open>LEFT JOIN\<close>: every row of the left side with each matching row of the table, or
  with \<open>None\<close> when no row matches. \<open>ORDER BY\<close> is a stable sort of the rows in
  storage order; \<open>LIMIT\<close> with a negative bound returns every row.
\<close>

definition leftJoin :: "'r list \<Rightarrow> ('r \<Rightarrow> 's \<Rightarrow> bool) \<Rightarrow> 's list \<Rightarrow> ('r \<times> 's option) list" where
  "leftJoin rows on table =
     concat (map (\<lambda>r. case filter (on r) table of
                           [] \<Rightarrow> [(r, None)]
                         | m # ms \<Rightarrow> map (\<lambda>s. (r, Some s)) (m # ms)) rows)"

definition sqlLimit :: "int \<Rightarrow> 'r list \<Rightarrow> 'r list" where
  "sqlLimit n rows = (if n < 0 then rows else take (nat n) rows)"

text \<open>\<open>COALESCE(x, y)\<close>\<close>

definition coalesce :: "'v option \<Rightarrow> 'v option \<Rightarrow> 'v option" where
  "coalesce x y = (case x of Some v \<Rightarrow> Some v | None \<Rightarrow> y)"

text \<open>
  The code points of a well-formed string. SQLite orders text by the bytes of its
  UTF-8 form, which is the order of the code points.
\<close>

fun codePoints :: "jsstring \<Rightarrow> nat list" where
  "codePoints [] = []"
| "codePoints [c] = [unat c]"
| "codePoints (c # d # ds) =
     (if isLeadSurrogate c \<and> isTrailSurrogate d then pairCodePoint c d # codePoints ds
      else unat c # codePoints (d # ds))"

subsection \<open>Status and start helpers\<close>

definition mapStatus :: "int \<Rightarrow> TodoStatus" where
  "mapStatus s = (if s = 3 then Completed else if s = 2 then Canceled else Open)"

definition mapStart :: "int option \<Rightarrow> StartBucket option" where
  "mapStart s =
     (if s = Some 0 then Some Inbox
      else if s = Some 1 then Some Anytime
      else if s = Some 2 then Some Someday
      else None)"

subsection \<open>Batch loading of tags and checklist items\<close>

text \<open>
  The loop that fills a \<open>Map\<close> from the rows of a batch query: a row is appended to
  the array of its key, or starts a new array.
\<close>

fun groupRows :: "(jsstring \<times> 'v) list \<Rightarrow> (jsstring \<rightharpoonup> 'v list) \<Rightarrow> (jsstring \<rightharpoonup> 'v list)" where
  "groupRows [] m = m"
| "groupRows ((key, v) # rest) m =
     groupRows rest
       (case m key of Some existing \<Rightarrow> m(key \<mapsto> existing @ [v]) | None \<Rightarrow> m(key \<mapsto> [v]))"

definition batchLoadTags :: "database \<Rightarrow> jsstring list \<Rightarrow> (jsstring \<rightharpoonup> jsstring list)" where
  "batchLoadTags db uuids =
     (if length uuids = 0 then Map.empty
      else
        let joined = concat (map (\<lambda>tt. map (\<lambda>t. (tt, t))
                        (filter (\<lambda>t. tt_tags tt = g_uuid t) (db_TMTag db))) (db_TMTaskTag db));
            selected = filter (\<lambda>(tt, t). tt_tasks tt \<in> set uuids) joined;
            rows = sort_key (\<lambda>(tt, t). codePoints (g_title t)) selected
        in groupRows (map (\<lambda>(tt, t). (tt_tasks tt, g_title t)) rows) Map.empty)"

definition batchLoadChecklists ::
  "database \<Rightarrow> jsstring list \<Rightarrow> (jsstring \<rightharpoonup> ChecklistItem list)" where
  "batchLoadChecklists db uuids =
     (if length uuids = 0 then Map.empty
      else
        let selected = filter (\<lambda>c. c_task c \<in> set uuids) (db_TMChecklistItem db);
            rows = sort_key c_index selected
        in groupRows
             (map (\<lambda>row. (c_task row,
                     \<lparr>ci_uuid = c_uuid row, ci_title = c_title row,
                      ci_completed = (c_status row = 3)\<rparr>)) rows)
             Map.empty)"

subsection \<open>formatTodo\<close>

definition optionalISO :: "int option \<Rightarrow> error + jsstring option" where
  "optionalISO ts =
     (case ts of None \<Rightarrow> Inr None
      | Some v \<Rightarrow> bindE (coreDataTimestampToISO v) (\<lambda>s. Inr (Some s)))"

definition formatTodo ::
  "RawTodoRow \<Rightarrow> (jsstring \<rightharpoonup> jsstring list) \<Rightarrow> (jsstring \<rightharpoonup> ChecklistItem list) \<Rightarrow> error + Todo" where
  "formatTodo r tagsMap checklistMap =
     bindE (coreDataTimestampToISO (r_creationDate r)) (\<lambda>created.
     bindE (optionalISO (r_modificationDate r)) (\<lambda>modified.
     bindE (optionalISO (r_completionDate r)) (\<lambda>completed.
       Inr \<lparr>uuid = r_uuid r,
            title = r_title r,
            notes = (case r_notes r of Some n \<Rightarrow> n | None \<Rightarrow> []),
            status = mapStatus (r_status r),
            start = mapStart (r_start r),
            startDate = map_option dayIntegerToDate (r_startDate r),
            deadline = map_option dayIntegerToDate (r_deadline r),
            todayIndex = r_todayIndex r,
            projectId = r_projectId r,
            projectTitle = r_projectTitle r,
            areaId = r_areaId r,
            areaTitle = r_areaTitle r,
            headingId = r_headingId r,
            headingTitle = r_headingTitle r,
            creationDate = created,
            modificationDate = modified,
            completionDate = completed,
            tags = (case tagsMap (r_uuid r) of Some ts \<Rightarrow> ts | None \<Rightarrow> []),
            checklistItems = (case checklistMap (r_uuid r) of Some cs \<Rightarrow> cs | None \<Rightarrow> [])\<rparr>)))"

text \<open>\<open>rows.map(f)\<close> for an \<open>f\<close> that can throw: the first exception ends the loop.\<close>

fun mapE :: "('a \<Rightarrow> error + 'b) \<Rightarrow> 'a list \<Rightarrow> error + 'b list" where
  "mapE f [] = Inr []"
| "mapE f (x # xs) = bindE (f x) (\<lambda>y. bindE (mapE f xs) (\<lambda>ys. Inr (y # ys)))"

subsection \<open>The to-do projection\<close>

text \<open>
  The \<open>FROM\<close> clause of \<open>queryTodos\<close> and \<open>queryTodoById\<close>: a task \<open>t\<close> with its
  project \<open>p\<close>, the area \<open>a\<close> of \<open>COALESCE(t.area, p.area)\<close> and its heading \<open>h\<close>.
  Text is compared by equality.
\<close>

type_synonym todoJoin = "((TMTask \<times> TMTask option) \<times> TMArea option) \<times> TMTask option"

definition joinTodos :: "database \<Rightarrow> todoJoin list" where
  "joinTodos db =
     leftJoin
       (leftJoin
          (leftJoin (db_TMTask db) (\<lambda>t p. t_project t = Some (t_uuid p)) (db_TMTask db))
          (\<lambda>(t, p) a.
             coalesce (t_area t) (case p of Some q \<Rightarrow> t_area q | None \<Rightarrow> None) = Some (a_uuid a))
          (db_TMArea db))
       (\<lambda>((t, p), a) h. t_heading t = Some (t_uuid h) \<and> t_type h = 2)
       (db_TMTask db)"

text \<open>The \<open>SELECT\<close> list shared by both queries.\<close>

definition selectTodo :: "todoJoin \<Rightarrow> RawTodoRow" where
  "selectTodo = (\<lambda>(((t, p), a), h).
     \<lparr>r_uuid = t_uuid t, r_title = t_title t, r_notes = t_notes t, r_status = t_status t,
      r_start = t_start t, r_startDate = t_startDate t, r_deadline = t_deadline t,
      r_todayIndex = t_todayIndex t,
      r_projectId = t_project t, r_projectTitle = map_option t_title p,
      r_areaId = t_area t, r_areaTitle = map_option a_title a,
      r_headingId = t_heading t, r_headingTitle = map_option t_title h,
      r_creationDate = t_creationDate t, r_modificationDate = t_userModificationDate t,
      r_completionDate = t_stopDate t\<rparr>)"

subsection \<open>queryTodos\<close>

text \<open>Comparisons with a column that may be \<open>NULL\<close>: \<open>NULL\<close> never satisfies them.\<close>

definition sqlLE :: "int option \<Rightarrow> int \<Rightarrow> bool" where
  "sqlLE x n = (case x of None \<Rightarrow> False | Some v \<Rightarrow> v \<le> n)"

definition sqlGT :: "int option \<Rightarrow> int \<Rightarrow> bool" where
  "sqlGT x n = (case x of None \<Rightarrow> False | Some v \<Rightarrow> v > n)"

text \<open>
  The conditions pushed for a list; a condition is a predicate on the task \<open>t\<close> and
  its project \<open>p\<close>, the only tables the \<open>WHERE\<close> clause mentions.
\<close>

fun listConditions :: "TodoList \<Rightarrow> int \<Rightarrow> (TMTask \<Rightarrow> TMTask option \<Rightarrow> bool) list" where
  "listConditions ListInbox todayDays =
     [\<lambda>t p. t_status t = 0, \<lambda>t p. t_start t = Some 0, \<lambda>t p. t_project t = None]"
| "listConditions ListToday todayDays =
     [\<lambda>t p. t_status t = 0,
      \<lambda>t p. t_todayIndex t > 0 \<or> (t_startDate t \<noteq> None \<and> sqlLE (t_startDate t) todayDays)]"
| "listConditions ListAnytime todayDays =
     [\<lambda>t p. t_status t = 0, \<lambda>t p. t_start t = Some 1,
      \<lambda>t p. t_startDate t = None \<or> sqlLE (t_startDate t) todayDays]"
| "listConditions ListSomeday todayDays =
     [\<lambda>t p. t_status t = 0, \<lambda>t p. t_start t = Some 2]"
| "listConditions ListUpcoming todayDays =
     [\<lambda>t p. t_status t = 0, \<lambda>t p. t_start t = Some 1, \<lambda>t p. t_startDate t \<noteq> None,
      \<lambda>t p. sqlGT (t_startDate t) todayDays]"
| "listConditions ListLogbook todayDays = [\<lambda>t p. t_status t = 3]"
| "listConditions ListTrash todayDays = [\<lambda>t p. t_trashed t = 1]"

fun statusMap :: "TodoStatus \<Rightarrow> int" where
  "statusMap Open = 0"
| "statusMap Completed = 3"
| "statusMap Canceled = 2"

text \<open>
  The array \<open>conditions\<close>. A string filter is applied when it is truthy, that is when
  it is given and not empty. \<open>LIKE\<close> is the operator of the engine, a parameter:
  \<open>LIKE x pattern\<close> holds when the text \<open>x\<close> matches the pattern.
\<close>

definition todoConditions ::
  "(jsstring \<Rightarrow> jsstring \<Rightarrow> bool) \<Rightarrow> int \<Rightarrow> TodoFilters \<Rightarrow> (TMTask \<Rightarrow> TMTask option \<Rightarrow> bool) list" where
  "todoConditions LIKE todayDays filters =
     [\<lambda>t p. t_type t = 0] @
     (if f_list filters \<noteq> Some ListTrash then [\<lambda>t p. t_trashed t = 0] else []) @
     (case f_list filters of None \<Rightarrow> [] | Some l \<Rightarrow> listConditions l todayDays) @
     (case f_status filters of None \<Rightarrow> [] | Some s \<Rightarrow> [\<lambda>t p. t_status t = statusMap s]) @
     (case f_projectId filters of
        None \<Rightarrow> []
      | Some pid \<Rightarrow> if pid \<noteq> [] then [\<lambda>t p. t_project t = Some pid] else []) @
     (case f_areaId filters of
        None \<Rightarrow> []
      | Some aid \<Rightarrow>
          if aid \<noteq> []
          then [\<lambda>t p. t_area t = Some aid \<or> (case p of Some q \<Rightarrow> t_area q = Some aid | None \<Rightarrow> False)]
          else []) @
     (case f_search filters of
        None \<Rightarrow> []
      | Some s \<Rightarrow>
          if s \<noteq> []
          then [\<lambda>t p. LIKE (t_title t) (js ''%'' @ s @ js ''%'') \<or>
                      (case t_notes t of Some n \<Rightarrow> LIKE n (js ''%'' @ s @ js ''%'') | None \<Rightarrow> False)]
          else [])"

text \<open>
  The sort key of \<open>ORDER BY t.todayIndex ASC, t.creationDate DESC\<close>, and for the
  logbook of \<open>ORDER BY t.stopDate DESC\<close>, where \<open>NULL\<close> comes last.
\<close>

definition todoOrder :: "TodoFilters \<Rightarrow> TMTask \<Rightarrow> int \<times> int" where
  "todoOrder filters t =
     (if f_list filters = Some ListLogbook
      then (case t_stopDate t of Some d \<Rightarrow> (0, - d) | None \<Rightarrow> (1, 0))
      else (t_todayIndex t, - t_creationDate t))"

text \<open>\<open>database.all(sql, params)\<close> in \<open>queryTodos\<close>; the limit is a whole number.\<close>

definition todoRows ::
  "(jsstring \<Rightarrow> jsstring \<Rightarrow> bool) \<Rightarrow> int \<Rightarrow> TodoFilters \<Rightarrow> database \<Rightarrow> RawTodoRow list" where
  "todoRows LIKE todayDays filters db =
     (let limit = (case f_limit filters of Some n \<Rightarrow> n | None \<Rightarrow> 50);
          conditions = todoConditions LIKE todayDays filters;
          matching = filter (\<lambda>(((t, p), a), h). list_all (\<lambda>c. c t p) conditions) (joinTodos db);
          ordered = sort_key (\<lambda>(((t, p), a), h). todoOrder filters t) matching
      in map selectTodo (sqlLimit limit ordered))"

text \<open>
  \<open>queryTodos\<close>. \<open>todayDays\<close> is the value that \<open>todayAsDayInteger()\<close> returns during
  the call.
\<close>

definition queryTodos ::
  "(jsstring \<Rightarrow> jsstring \<Rightarrow> bool) \<Rightarrow> int \<Rightarrow> TodoFilters \<Rightarrow> database \<Rightarrow> error + Todo list" where
  "queryTodos LIKE todayDays filters db =
     (let rows = todoRows LIKE todayDays filters db;
          uuids = map r_uuid rows
      in if length uuids = 0 then Inr []
         else
           (let tagsMap = batchLoadTags db uuids;
                checklistMap = batchLoadChecklists db uuids
            in mapE (\<lambda>r. formatTodo r tagsMap checklistMap) rows))"

subsection \<open>queryTodoById\<close>

definition queryTodoById :: "jsstring \<Rightarrow> database \<Rightarrow> error + Todo option" where
  "queryTodoById u db =
     (case map selectTodo
             (filter (\<lambda>(((t, p), a), h). t_uuid t = u \<and> t_type t = 0) (joinTodos db)) of
        [] \<Rightarrow> Inr None
      | row # others \<Rightarrow>
          (let tagsMap = batchLoadTags db [u];
               checklistMap = batchLoadChecklists db [u]
           in bindE (formatTodo row tagsMap checklistMap) (\<lambda>todo. Inr (Some todo))))"

subsection \<open>queryProjects\<close>

definition projectConditions ::
  "(jsstring \<Rightarrow> jsstring \<Rightarrow> bool) \<Rightarrow> ProjectFilters \<Rightarrow> (TMTask \<Rightarrow> bool) list" where
  "projectConditions LIKE filters =
     [\<lambda>t. t_type t = 1, \<lambda>t. t_trashed t = 0] @
     (case pf_status filters of None \<Rightarrow> [] | Some s \<Rightarrow> [\<lambda>t. t_status t = statusMap s]) @
     (case pf_areaId filters of
        None \<Rightarrow> []
      | Some aid \<Rightarrow> if aid \<noteq> [] then [\<lambda>t. t_area t = Some aid] else []) @
     (case pf_search filters of
        None \<Rightarrow> []
      | Some s \<Rightarrow>
          if s \<noteq> []
          then [\<lambda>t. LIKE (t_title t) (js ''%'' @ s @ js ''%'') \<or>
                    (case t_notes t of Some n \<Rightarrow> LIKE n (js ''%'' @ s @ js ''%'') | None \<Rightarrow> False)]
          else [])"

text \<open>The two correlated counts over the to-dos of a project.\<close>

definition openTodoCount :: "database \<Rightarrow> TMTask \<Rightarrow> int" where
  "openTodoCount db t =
     int (length (filter (\<lambda>c. t_project c = Some (t_uuid t) \<and> t_type c = 0 \<and>
                              t_trashed c = 0 \<and> t_status c = 0) (db_TMTask db)))"

definition totalTodoCount :: "database \<Rightarrow> TMTask \<Rightarrow> int" where
  "totalTodoCount db t =
     int (length (filter (\<lambda>c. t_project c = Some (t_uuid t) \<and> t_type c = 0 \<and>
                              t_trashed c = 0) (db_TMTask db)))"

definition projectListRows ::
  "(jsstring \<Rightarrow> jsstring \<Rightarrow> bool) \<Rightarrow> ProjectFilters \<Rightarrow> database \<Rightarrow> RawProjectRow list" where
  "projectListRows LIKE filters db =
     (let limit = (case pf_limit filters of Some n \<Rightarrow> n | None \<Rightarrow> 50);
          conditions = projectConditions LIKE filters;
          matching = filter (\<lambda>(t, a). list_all (\<lambda>c. c t) conditions)
                       (leftJoin (db_TMTask db) (\<lambda>t a. t_area t = Some (a_uuid a)) (db_TMArea db));
          ordered = sort_key (\<lambda>(t, a). (t_todayIndex t, - t_creationDate t)) matching
      in map (\<lambda>(t, a).
                \<lparr>pr_uuid = t_uuid t, pr_title = t_title t, pr_notes = t_notes t,
                 pr_status = t_status t, pr_start = t_start t, pr_startDate = t_startDate t,
                 pr_deadline = t_deadline t, pr_areaId = t_area t,
                 pr_areaTitle = map_option a_title a, pr_creationDate = t_creationDate t,
                 pr_modificationDate = t_userModificationDate t,
                 pr_completionDate = t_stopDate t,
                 pr_openTodoCount = Some (openTodoCount db t),
                 pr_totalTodoCount = Some (totalTodoCount db t)\<rparr>)
           (sqlLimit limit ordered))"

definition formatProject :: "RawProjectRow \<Rightarrow> (jsstring \<rightharpoonup> jsstring list) \<Rightarrow> error + Project" where
  "formatProject r tagsMap =
     bindE (coreDataTimestampToISO (pr_creationDate r)) (\<lambda>created.
     bindE (optionalISO (pr_modificationDate r)) (\<lambda>modified.
     bindE (optionalISO (pr_completionDate r)) (\<lambda>completed.
       Inr \<lparr>pj_uuid = pr_uuid r,
            pj_title = pr_title r,
            pj_notes = (case pr_notes r of Some n \<Rightarrow> n | None \<Rightarrow> []),
            pj_status = mapStatus (pr_status r),
            pj_start = mapStart (pr_start r),
            pj_startDate = map_option dayIntegerToDate (pr_startDate r),
            pj_deadline = map_option dayIntegerToDate (pr_deadline r),
            pj_areaId = pr_areaId r,
            pj_areaTitle = pr_areaTitle r,
            pj_creationDate = created,
            pj_modificationDate = modified,
            pj_completionDate = completed,
            pj_tags = (case tagsMap (pr_uuid r) of Some ts \<Rightarrow> ts | None \<Rightarrow> []),
            pj_openTodoCount = (case pr_openTodoCount r of Some n \<Rightarrow> n | None \<Rightarrow> 0),
            pj_totalTodoCount = (case pr_totalTodoCount r of Some n \<Rightarrow> n | None \<Rightarrow> 0)\<rparr>)))"

definition queryProjects ::
  "(jsstring \<Rightarrow> jsstring \<Rightarrow> bool) \<Rightarrow> ProjectFilters \<Rightarrow> database \<Rightarrow> error + Project list" where
  "queryProjects LIKE filters db =
     (let rows = projectListRows LIKE filters db;
          uuids = map pr_uuid rows
      in if length uuids = 0 then Inr []
         else
           (let tagsMap = batchLoadTags db uuids
            in mapE (\<lambda>r. formatProject r tagsMap) rows))"

subsection \<open>queryAreas and queryTags\<close>

definition queryAreas :: "database \<Rightarrow> Area list" where
  "queryAreas db =
     map (\<lambda>r. \<lparr>ar_uuid = a_uuid r, ar_title = a_title r, ar_visible = (a_visible r = 1)\<rparr>)
       (sort_key a_index (db_TMArea db))"

definition queryTags :: "database \<Rightarrow> Tag list" where
  "queryTags db =
     map (\<lambda>r. \<lparr>tg_uuid = g_uuid r, tg_title = g_title r, tg_shortcut = g_shortcut r,
                tg_parentTag = g_parent r\<rparr>)
       (sort_key (\<lambda>r. codePoints (g_title r)) (db_TMTag db))"

subsection \<open>queryProjectById\<close>

text \<open>The three statements of \<open>queryProjectById\<close>: the project, its headings, its to-dos.\<close>

definition projectRows :: "jsstring \<Rightarrow> database \<Rightarrow> RawProjectRow list" where
  "projectRows u db =
     map (\<lambda>(t, a).
            \<lparr>pr_uuid = t_uuid t, pr_title = t_title t, pr_notes = t_notes t,
             pr_status = t_status t, pr_start = t_start t, pr_startDate = t_startDate t,
             pr_deadline = t_deadline t, pr_areaId = t_area t,
             pr_areaTitle = map_option a_title a, pr_creationDate = t_creationDate t,
             pr_modificationDate = t_userModificationDate t,
             pr_completionDate = t_stopDate t,
             pr_openTodoCount = None, pr_totalTodoCount = None\<rparr>)
       (filter (\<lambda>(t, a). t_uuid t = u \<and> t_type t = 1)
          (leftJoin (db_TMTask db) (\<lambda>t a. t_area t = Some (a_uuid a)) (db_TMArea db)))"

definition projectHeadings :: "jsstring \<Rightarrow> database \<Rightarrow> (jsstring \<times> jsstring) list" where
  "projectHeadings u db =
     map (\<lambda>h. (t_uuid h, t_title h))
       (sort_key t_index
          (filter (\<lambda>h. t_project h = Some u \<and> t_type h = 2 \<and> t_trashed h = 0) (db_TMTask db)))"

text \<open>The to-dos of the project; the statement selects \<open>$uuid AS projectTitle\<close>.\<close>

definition projectTodoRows :: "jsstring \<Rightarrow> database \<Rightarrow> RawTodoRow list" where
  "projectTodoRows u db =
     map (\<lambda>((t, a2), h).
            \<lparr>r_uuid = t_uuid t, r_title = t_title t, r_notes = t_notes t,
             r_status = t_status t, r_start = t_start t, r_startDate = t_startDate t,
             r_deadline = t_deadline t, r_todayIndex = t_todayIndex t,
             r_projectId = t_project t, r_projectTitle = Some u,
             r_areaId = t_area t, r_areaTitle = map_option a_title a2,
             r_headingId = t_heading t, r_headingTitle = map_option t_title h,
             r_creationDate = t_creationDate t,
             r_modificationDate = t_userModificationDate t,
             r_completionDate = t_stopDate t\<rparr>)
       (sort_key (\<lambda>((t, a2), h). t_index t)
          (filter (\<lambda>((t, a2), h). t_project t = Some u \<and> t_type t = 0 \<and> t_trashed t = 0)
             (leftJoin
                (leftJoin (db_TMTask db) (\<lambda>t a2. t_area t = Some (a_uuid a2)) (db_TMArea db))
                (\<lambda>(t, a2) h. t_heading t = Some (t_uuid h) \<and> t_type h = 2)
                (db_TMTask db))))"

definition queryProjectById :: "jsstring \<Rightarrow> database \<Rightarrow> error + ProjectDetail option" where
  "queryProjectById u db =
     (case projectRows u db of
        [] \<Rightarrow> Inr None
      | row # others \<Rightarrow>
          (let tagsMap = batchLoadTags db [u];
               hs = projectHeadings u db;
               rows = projectTodoRows u db;
               todoUuids = map r_uuid rows;
               todoTagsMap = (if length todoUuids > 0 then batchLoadTags db todoUuids else Map.empty);
               checklistMap =
                 (if length todoUuids > 0 then batchLoadChecklists db todoUuids else Map.empty)
           in
           bindE (mapE (\<lambda>r. bindE (formatTodo r todoTagsMap checklistMap)
                               (\<lambda>t. Inr (t\<lparr>headingId := r_headingId r\<rparr>))) rows) (\<lambda>ts.
           bindE (coreDataTimestampToISO (pr_creationDate row)) (\<lambda>created.
           bindE (optionalISO (pr_modificationDate row)) (\<lambda>modified.
           bindE (optionalISO (pr_completionDate row)) (\<lambda>completed.
             Inr (Some
               \<lparr>p_uuid = pr_uuid row,
                p_title = pr_title row,
                p_notes = (case pr_notes row of Some n \<Rightarrow> n | None \<Rightarrow> []),
                p_status = mapStatus (pr_status row),
                p_start = mapStart (pr_start row),
                p_startDate = map_option dayIntegerToDate (pr_startDate row),
                p_deadline = map_option dayIntegerToDate (pr_deadline row),
                p_areaId = pr_areaId row,
                p_areaTitle = pr_areaTitle row,
                p_creationDate = created,
                p_modificationDate = modified,
                p_completionDate = completed,
                p_tags = (case tagsMap u of Some ts \<Rightarrow> ts | None \<Rightarrow> []),
                headings = hs,
                todos = ts\<rparr>)))))))"

subsection \<open>Vocabulary for the properties of the queries\<close>







subsection \<open>An example store\<close>

text \<open>
  A store with the area \<open>Work\<close>, the project \<open>Work Project\<close> in that area and the
  to-do \<open>Review PR\<close> in that project; the to-do has no area of its own.
\<close>

definition exampleTask :: "jsstring \<Rightarrow> jsstring \<Rightarrow> int \<Rightarrow> TMTask" where
  "exampleTask u ttl ty =
     \<lparr>t_uuid = u, t_title = ttl, t_notes = None, t_type = ty, t_status = 0,
      t_start = Some 1, t_startDate = None, t_deadline = None, t_todayIndex = 0,
      t_project = None, t_area = None, t_heading = None, t_trashed = 0,
      t_creationDate = 0, t_userModificationDate = None, t_stopDate = None, t_index = 0\<rparr>"

definition exampleProject :: TMTask where
  "exampleProject =
     (exampleTask (js ''proj-2'') (js ''Work Project'') 1)\<lparr>t_area := Some (js ''area-work'')\<rparr>"

definition exampleTodo :: TMTask where
  "exampleTodo =
     (exampleTask (js ''todo-1'') (js ''Review PR'') 0)\<lparr>t_project := Some (js ''proj-2'')\<rparr>"

definition exampleArea :: TMArea where
  "exampleArea = \<lparr>a_uuid = js ''area-work'', a_title = js ''Work'', a_visible = 1, a_index = 0\<rparr>"

definition exampleDb :: database where
  "exampleDb =
     \<lparr>db_TMTask = [exampleProject, exampleTodo], db_TMArea = [exampleArea],
      db_TMTag = [], db_TMTaskTag = [], db_TMChecklistItem = []\<rparr>"





section \<open>url.ts and tools.ts: the credential and the tool handlers\<close>

text \<open>\<open>process.env\<close>: the environment variables that are set, with their values.\<close>

type_synonym env = "jsstring \<rightharpoonup> jsstring"

definition authTokenMessage :: jsstring where
  "authTokenMessage =
     js ''THINGS_AUTH_TOKEN environment variable is required for this operation. '' @
     js ''Get your token from Things '' @ [0x2192] @ js '' Settings '' @ [0x2192] @
     js '' General '' @ [0x2192] @ js '' Enable Things URLs '' @ [0x2192] @ js '' Manage. '' @
     js ''Then add it to your MCP client config as an environment variable.''"

text \<open>\<open>requireAuthToken\<close>: \<open>!token\<close> holds for an unset and for an empty variable.\<close>

definition requireAuthToken :: "env \<Rightarrow> error + jsstring" where
  "requireAuthToken env =
     (case env (js ''THINGS_AUTH_TOKEN'') of
        None \<Rightarrow> Inl (Error authTokenMessage)
      | Some token \<Rightarrow> if token = [] then Inl (Error authTokenMessage) else Inr token)"

definition getAuthToken :: "env \<Rightarrow> jsstring option" where
  "getAuthToken env = env (js ''THINGS_AUTH_TOKEN'')"

text \<open>
  What a handler does to the outside: it builds a URL and hands it to \<open>executeUrl\<close>.
  A handler returns the result of the tool, or the exception it throws, together with
  the events in the order in which they happened. \<open>executeUrl\<close> is a parameter: the
  result of the external process, or the error with which its promise is rejected.
\<close>

datatype event = UrlBuilt jsstring | UrlExecuted jsstring

record ToolResult =
  tr_text :: jsstring
  tr_isError :: bool

type_synonym outcome = "(error + ToolResult) \<times> event list"

text \<open>
  \<open>const url = ...; const result = await executeUrl(url); return ...\<close>, where the
  construction of the URL may throw.
\<close>

definition dispatch ::
  "(jsstring \<Rightarrow> error + ExecuteResult) \<Rightarrow> error + jsstring \<Rightarrow> (ExecuteResult \<Rightarrow> ToolResult) \<Rightarrow> outcome" where
  "dispatch executeUrl built respond =
     (case built of
        Inl e \<Rightarrow> (Inl e, [])
      | Inr url \<Rightarrow>
          (case executeUrl url of
             Inl e \<Rightarrow> (Inl e, [UrlBuilt url, UrlExecuted url])
           | Inr result \<Rightarrow> (Inr (respond result), [UrlBuilt url, UrlExecuted url])))"

text \<open>\<open>result.thingsId ? ` (ID: ${result.thingsId})` : ""\<close>\<close>

definition idInfo :: "ExecuteResult \<Rightarrow> jsstring" where
  "idInfo result =
     (case thingsId result of
        Some i \<Rightarrow> if i \<noteq> [] then js '' (ID: '' @ i @ js '')'' else []
      | None \<Rightarrow> [])"

text \<open>An optional input of a tool as a URL parameter; \<open>xs?.join(sep)\<close> for an array.\<close>

definition optStr :: "jsstring option \<Rightarrow> ParamValue" where
  "optStr v = (case v of Some s \<Rightarrow> Str s | None \<Rightarrow> Undefined)"

definition optBool :: "bool option \<Rightarrow> ParamValue" where
  "optBool v = (case v of Some b \<Rightarrow> Bool b | None \<Rightarrow> Undefined)"

definition optJoin :: "jsstring \<Rightarrow> jsstring list option \<Rightarrow> ParamValue" where
  "optJoin sep v = (case v of Some xs \<Rightarrow> Str (join sep xs) | None \<Rightarrow> Undefined)"

subsection \<open>update-todo\<close>

record UpdateTodoParams =
  ut_id :: jsstring
  ut_title :: "jsstring option"
  ut_notes :: "jsstring option"
  ut_prependNotes :: "jsstring option"
  ut_appendNotes :: "jsstring option"
  ut_when :: "jsstring option"
  ut_deadline :: "jsstring option"
  ut_tags :: "jsstring list option"
  ut_addTags :: "jsstring list option"
  ut_checklistItems :: "jsstring list option"
  ut_prependChecklistItems :: "jsstring list option"
  ut_appendChecklistItems :: "jsstring list option"
  ut_list :: "jsstring option"
  ut_listId :: "jsstring option"
  ut_heading :: "jsstring option"
  ut_headingId :: "jsstring option"
  ut_completed :: "bool option"
  ut_canceled :: "bool option"
  ut_reveal :: "bool option"
  ut_duplicate :: "bool option"
  ut_creationDate :: "jsstring option"
  ut_completionDate :: "jsstring option"

definition updateTodoUrlParams :: "UpdateTodoParams \<Rightarrow> (jsstring \<times> ParamValue) list" where
  "updateTodoUrlParams params =
     [(js ''id'', Str (ut_id params)),
      (js ''title'', optStr (ut_title params)),
      (js ''notes'', optStr (ut_notes params)),
      (js ''prepend-notes'', optStr (ut_prependNotes params)),
      (js ''append-notes'', optStr (ut_appendNotes params)),
      (js ''when'', optStr (ut_when params)),
      (js ''deadline'', optStr (ut_deadline params)),
      (js ''tags'', optJoin (js '','') (ut_tags params)),
      (js ''add-tags'', optJoin (js '','') (ut_addTags params)),
      (js ''checklist-items'', optJoin [0x0A] (ut_checklistItems params)),
      (js ''prepend-checklist-items'', optJoin [0x0A] (ut_prependChecklistItems params)),
      (js ''append-checklist-items'', optJoin [0x0A] (ut_appendChecklistItems params)),
      (js ''list'', optStr (ut_list params)),
      (js ''list-id'', optStr (ut_listId params)),
      (js ''heading'', optStr (ut_heading params)),
      (js ''heading-id'', optStr (ut_headingId params)),
      (js ''completed'', optBool (ut_completed params)),
      (js ''canceled'', optBool (ut_canceled params)),
      (js ''reveal'', optBool (ut_reveal params)),
      (js ''duplicate'', optBool (ut_duplicate params)),
      (js ''creation-date'', optStr (ut_creationDate params)),
      (js ''completion-date'', optStr (ut_completionDate params))]"

definition updateTodoHandler ::
  "env \<Rightarrow> (jsstring \<Rightarrow> error + ExecuteResult) \<Rightarrow> UpdateTodoParams \<Rightarrow> outcome" where
  "updateTodoHandler env executeUrl params =
     (case requireAuthToken env of
        Inl e \<Rightarrow> (Inl e, [])
      | Inr authToken \<Rightarrow>
          dispatch executeUrl (buildUrl Update (updateTodoUrlParams params) (Some authToken))
            (\<lambda>result. \<lparr>tr_text = js ''Updated to-do '' @ ut_id params @ idInfo result,
                        tr_isError = False\<rparr>))"

subsection \<open>update-project\<close>

record UpdateProjectParams =
  up_id :: jsstring
  up_title :: "jsstring option"
  up_notes :: "jsstring option"
  up_prependNotes :: "jsstring option"
  up_appendNotes :: "jsstring option"
  up_when :: "jsstring option"
  up_deadline :: "jsstring option"
  up_tags :: "jsstring list option"
  up_addTags :: "jsstring list option"
  up_area :: "jsstring option"
  up_areaId :: "jsstring option"
  up_completed :: "bool option"
  up_canceled :: "bool option"
  up_reveal :: "bool option"
  up_duplicate :: "bool option"
  up_creationDate :: "jsstring option"
  up_completionDate :: "jsstring option"

definition updateProjectUrlParams :: "UpdateProjectParams \<Rightarrow> (jsstring \<times> ParamValue) list" where
  "updateProjectUrlParams params =
     [(js ''id'', Str (up_id params)),
      (js ''title'', optStr (up_title params)),
      (js ''notes'', optStr (up_notes params)),
      (js ''prepend-notes'', optStr (up_prependNotes params)),
      (js ''append-notes'', optStr (up_appendNotes params)),
      (js ''when'', optStr (up_when params)),
      (js ''deadline'', optStr (up_deadline params)),
      (js ''tags'', optJoin (js '','') (up_tags params)),
      (js ''add-tags'', optJoin (js '','') (up_addTags params)),
      (js ''area'', optStr (up_area params)),
      (js ''area-id'', optStr (up_areaId params)),
      (js ''completed'', optBool (up_completed params)),
      (js ''canceled'', optBool (up_canceled params)),
      (js ''reveal'', optBool (up_reveal params)),
      (js ''duplicate'', optBool (up_duplicate params)),
      (js ''creation-date'', optStr (up_creationDate params)),
      (js ''completion-date'', optStr (up_completionDate params))]"

definition updateProjectHandler ::
  "env \<Rightarrow> (jsstring \<Rightarrow> error + ExecuteResult) \<Rightarrow> UpdateProjectParams \<Rightarrow> outcome" where
  "updateProjectHandler env executeUrl params =
     (case requireAuthToken env of
        Inl e \<Rightarrow> (Inl e, [])
      | Inr authToken \<Rightarrow>
          dispatch executeUrl (buildUrl UpdateProject (updateProjectUrlParams params) (Some authToken))
            (\<lambda>result. \<lparr>tr_text = js ''Updated project '' @ up_id params @ idInfo result,
                        tr_isError = False\<rparr>))"

subsection \<open>add-todo\<close>

record AddTodoParams =
  at_title :: "jsstring option"
  at_titles :: "jsstring option"
  at_notes :: "jsstring option"
  at_when :: "jsstring option"
  at_deadline :: "jsstring option"
  at_tags :: "jsstring list option"
  at_checklistItems :: "jsstring list option"
  at_list :: "jsstring option"
  at_listId :: "jsstring option"
  at_heading :: "jsstring option"
  at_headingId :: "jsstring option"
  at_completed :: "bool option"
  at_canceled :: "bool option"
  at_reveal :: "bool option"
  at_showQuickEntry :: "bool option"
  at_useClipboard :: "bool option"
  at_creationDate :: "jsstring option"
  at_completionDate :: "jsstring option"

definition addTodoUrlParams :: "AddTodoParams \<Rightarrow> (jsstring \<times> ParamValue) list" where
  "addTodoUrlParams params =
     [(js ''title'', optStr (at_title params)),
      (js ''titles'', optStr (at_titles params)),
      (js ''notes'', optStr (at_notes params)),
      (js ''when'', optStr (at_when params)),
      (js ''deadline'', optStr (at_deadline params)),
      (js ''tags'', optJoin (js '','') (at_tags params)),
      (js ''checklist-items'', optJoin [0x0A] (at_checklistItems params)),
      (js ''list'', optStr (at_list params)),
      (js ''list-id'', optStr (at_listId params)),
      (js ''heading'', optStr (at_heading params)),
      (js ''heading-id'', optStr (at_headingId params)),
      (js ''completed'', optBool (at_completed params)),
      (js ''canceled'', optBool (at_canceled params)),
      (js ''reveal'', optBool (at_reveal params)),
      (js ''show-quick-entry'', optBool (at_showQuickEntry params)),
      (js ''use-clipboard'', optBool (at_useClipboard params)),
      (js ''creation-date'', optStr (at_creationDate params)),
      (js ''completion-date'', optStr (at_completionDate params))]"

text \<open>The label of the answer: the first of the inputs that is truthy decides.\<close>

definition truthyStr :: "jsstring option \<Rightarrow> bool" where
  "truthyStr v = (case v of Some s \<Rightarrow> s \<noteq> [] | None \<Rightarrow> False)"

definition addTodoFallbackLabel :: "AddTodoParams \<Rightarrow> jsstring" where
  "addTodoFallbackLabel params =
     (if at_useClipboard params = Some True then js ''to-do from clipboard''
      else if at_showQuickEntry params = Some True then js ''to-do via Quick Entry''
      else js ''to-do'')"

definition addTodoLabel :: "AddTodoParams \<Rightarrow> jsstring" where
  "addTodoLabel params =
     (if truthyStr (at_titles params) then js ''to-dos''
      else
        (case at_title params of
           Some s \<Rightarrow>
             if s \<noteq> [] then js ''to-do '' @ [0x22] @ s @ [0x22]
             else addTodoFallbackLabel params
         | None \<Rightarrow> addTodoFallbackLabel params))"

definition addTodoHandler ::
  "env \<Rightarrow> (jsstring \<Rightarrow> error + ExecuteResult) \<Rightarrow> AddTodoParams \<Rightarrow> outcome" where
  "addTodoHandler env executeUrl params =
     dispatch executeUrl (buildUrl Add (addTodoUrlParams params) None)
       (\<lambda>result. \<lparr>tr_text = js ''Created '' @ addTodoLabel params @ idInfo result,
                   tr_isError = False\<rparr>)"

subsection \<open>add-project\<close>

record AddProjectParams =
  ap_title :: jsstring
  ap_notes :: "jsstring option"
  ap_when :: "jsstring option"
  ap_deadline :: "jsstring option"
  ap_tags :: "jsstring list option"
  ap_area :: "jsstring option"
  ap_areaId :: "jsstring option"
  ap_todos :: "jsstring list option"
  ap_completed :: "bool option"
  ap_canceled :: "bool option"
  ap_reveal :: "bool option"
  ap_creationDate :: "jsstring option"
  ap_completionDate :: "jsstring option"

definition addProjectUrlParams :: "AddProjectParams \<Rightarrow> (jsstring \<times> ParamValue) list" where
  "addProjectUrlParams params =
     [(js ''title'', Str (ap_title params)),
      (js ''notes'', optStr (ap_notes params)),
      (js ''when'', optStr (ap_when params)),
      (js ''deadline'', optStr (ap_deadline params)),
      (js ''tags'', optJoin (js '','') (ap_tags params)),
      (js ''area'', optStr (ap_area params)),
      (js ''area-id'', optStr (ap_areaId params)),
      (js ''to-dos'', optJoin [0x0A] (ap_todos params)),
      (js ''completed'', optBool (ap_completed params)),
      (js ''canceled'', optBool (ap_canceled params)),
      (js ''reveal'', optBool (ap_reveal params)),
      (js ''creation-date'', optStr (ap_creationDate params)),
      (js ''completion-date'', optStr (ap_completionDate params))]"

definition addProjectHandler ::
  "env \<Rightarrow> (jsstring \<Rightarrow> error + ExecuteResult) \<Rightarrow> AddProjectParams \<Rightarrow> outcome" where
  "addProjectHandler env executeUrl params =
     dispatch executeUrl (buildUrl AddProject (addProjectUrlParams params) None)
       (\<lambda>result. \<lparr>tr_text = js ''Created project '' @ [0x22] @ ap_title params @ [0x22] @
                     idInfo result,
                   tr_isError = False\<rparr>)"

subsection \<open>add-json\<close>

text \<open>
  An item is an object, given by its members. \<open>item["operation"] === "update"\<close>: the
  member \<open>operation\<close> is the string \<open>update\<close>.
\<close>

type_synonym 'n item = "(jsstring \<times> 'n json) list"

definition isUpdate :: "'n item \<Rightarrow> bool" where
  "isUpdate item = (map_of item (js ''operation'') = Some (JStr (js ''update'')))"

record 'n AddJsonParams =
  aj_items :: "'n item list"
  aj_reveal :: "bool option"

definition idsInfo :: "ExecuteResult \<Rightarrow> jsstring" where
  "idsInfo result =
     (case thingsId result of
        Some i \<Rightarrow> if i \<noteq> [] then js '' (IDs: '' @ i @ js '')'' else []
      | None \<Rightarrow> [])"

definition addJsonText :: "nat \<Rightarrow> ExecuteResult \<Rightarrow> jsstring" where
  "addJsonText count result =
     js ''Processed '' @ numberString (int count) @ js '' item'' @
     (if count = 1 then [] else js ''s'') @ idsInfo result"

text \<open>
  The handler of \<open>add-json\<close>: \<open>requireAuthToken\<close> when an item is an update,
  \<open>getAuthToken\<close> otherwise. \<open>stringify\<close> is \<open>JSON.stringify\<close> on the items.
\<close>

definition addJsonHandler ::
  "env \<Rightarrow> (jsstring \<Rightarrow> error + ExecuteResult) \<Rightarrow> ('n item list \<Rightarrow> jsstring) \<Rightarrow>
     'n AddJsonParams \<Rightarrow> outcome" where
  "addJsonHandler env executeUrl stringify params =
     (let hasUpdates = list_ex isUpdate (aj_items params)
      in case (if hasUpdates then bindE (requireAuthToken env) (\<lambda>token. Inr (Some token))
               else Inr (getAuthToken env)) of
           Inl e \<Rightarrow> (Inl e, [])
         | Inr authToken \<Rightarrow>
             dispatch executeUrl
               (buildJsonUrl (stringify (aj_items params)) authToken (aj_reveal params))
               (\<lambda>result. \<lparr>tr_text = addJsonText (length (aj_items params)) result,
                           tr_isError = False\<rparr>))"

subsection \<open>The read tools\<close>

text \<open>
  The handlers of the six read tools. \<open>stringify\<close> is
  \<open>JSON.stringify(x, null, 2)\<close> and \<open>message\<close> the text of an exception; both are
  parameters. The handlers catch what the query throws and build no URL.
\<close>

definition readAnswer ::
  "(error \<Rightarrow> jsstring) \<Rightarrow> jsstring \<Rightarrow> error + ToolResult \<Rightarrow> outcome" where
  "readAnswer message failure r =
     (case r of
        Inl e \<Rightarrow> (Inr \<lparr>tr_text = failure @ message e, tr_isError = True\<rparr>, [])
      | Inr answer \<Rightarrow> (Inr answer, []))"

definition getTodosHandler ::
  "env \<Rightarrow> (Todo list \<Rightarrow> jsstring) \<Rightarrow> (error \<Rightarrow> jsstring) \<Rightarrow> (jsstring \<Rightarrow> jsstring \<Rightarrow> bool) \<Rightarrow> int \<Rightarrow>
     database \<Rightarrow> TodoFilters \<Rightarrow> outcome" where
  "getTodosHandler env stringify message LIKE todayDays db params =
     readAnswer message (js ''Failed to query todos: '')
       (bindE (queryTodos LIKE todayDays params db) (\<lambda>ts.
          Inr \<lparr>tr_text = stringify ts, tr_isError = False\<rparr>))"

definition getTodoHandler ::
  "env \<Rightarrow> (Todo \<Rightarrow> jsstring) \<Rightarrow> (error \<Rightarrow> jsstring) \<Rightarrow> database \<Rightarrow> jsstring \<Rightarrow> outcome" where
  "getTodoHandler env stringify message db u =
     readAnswer message (js ''Failed to query todo: '')
       (bindE (queryTodoById u db) (\<lambda>found.
          case found of
            None \<Rightarrow> Inr \<lparr>tr_text = js ''No to-do found with ID: '' @ u, tr_isError = True\<rparr>
          | Some todo \<Rightarrow> Inr \<lparr>tr_text = stringify todo, tr_isError = False\<rparr>))"

definition getProjectHandler ::
  "env \<Rightarrow> (ProjectDetail \<Rightarrow> jsstring) \<Rightarrow> (error \<Rightarrow> jsstring) \<Rightarrow> database \<Rightarrow> jsstring \<Rightarrow> outcome" where
  "getProjectHandler env stringify message db u =
     readAnswer message (js ''Failed to query project: '')
       (bindE (queryProjectById u db) (\<lambda>found.
          case found of
            None \<Rightarrow> Inr \<lparr>tr_text = js ''No project found with ID: '' @ u, tr_isError = True\<rparr>
          | Some project \<Rightarrow> Inr \<lparr>tr_text = stringify project, tr_isError = False\<rparr>))"

definition getProjectsHandler ::
  "env \<Rightarrow> (Project list \<Rightarrow> jsstring) \<Rightarrow> (error \<Rightarrow> jsstring) \<Rightarrow> (jsstring \<Rightarrow> jsstring \<Rightarrow> bool) \<Rightarrow>
     database \<Rightarrow> ProjectFilters \<Rightarrow> outcome" where
  "getProjectsHandler env stringify message LIKE db params =
     readAnswer message (js ''Failed to query projects: '')
       (bindE (queryProjects LIKE params db) (\<lambda>ps.
          Inr \<lparr>tr_text = stringify ps, tr_isError = False\<rparr>))"

definition getAreasHandler ::
  "env \<Rightarrow> (Area list \<Rightarrow> jsstring) \<Rightarrow> (error \<Rightarrow> jsstring) \<Rightarrow> database \<Rightarrow> outcome" where
  "getAreasHandler env stringify message db =
     readAnswer message (js ''Failed to query areas: '')
       (Inr \<lparr>tr_text = stringify (queryAreas db), tr_isError = False\<rparr>)"

definition getTagsHandler ::
  "env \<Rightarrow> (Tag list \<Rightarrow> jsstring) \<Rightarrow> (error \<Rightarrow> jsstring) \<Rightarrow> database \<Rightarrow> outcome" where
  "getTagsHandler env stringify message db =
     readAnswer message (js ''Failed to query tags: '')
       (Inr \<lparr>tr_text = stringify (queryTags db), tr_isError = False\<rparr>)"

subsection \<open>Example inputs of the tools\<close>

definition exampleUpdate :: UpdateTodoParams where
  "exampleUpdate =
     \<lparr>ut_id = js ''abc'', ut_title = Some (js ''New title''), ut_notes = None,
      ut_prependNotes = None, ut_appendNotes = None, ut_when = None, ut_deadline = Some [],
      ut_tags = None, ut_addTags = None, ut_checklistItems = None,
      ut_prependChecklistItems = None, ut_appendChecklistItems = None, ut_list = None,
      ut_listId = None, ut_heading = None, ut_headingId = None, ut_completed = None,
      ut_canceled = None, ut_reveal = None, ut_duplicate = None, ut_creationDate = None,
      ut_completionDate = None\<rparr>"

definition exampleUpdateProject :: UpdateProjectParams where
  "exampleUpdateProject =
     \<lparr>up_id = js ''proj-2'', up_title = None, up_notes = None, up_prependNotes = None,
      up_appendNotes = None, up_when = None, up_deadline = None, up_tags = None,
      up_addTags = None, up_area = None, up_areaId = None, up_completed = Some True,
      up_canceled = None, up_reveal = None, up_duplicate = None, up_creationDate = None,
      up_completionDate = None\<rparr>"

definition exampleAdd :: AddTodoParams where
  "exampleAdd =
     \<lparr>at_title = Some (js ''Buy milk''), at_titles = None, at_notes = None, at_when = None,
      at_deadline = None, at_tags = Some [js ''work'', js ''urgent''], at_checklistItems = None,
      at_list = None, at_listId = None, at_heading = None, at_headingId = None,
      at_completed = None, at_canceled = None, at_reveal = None, at_showQuickEntry = None,
      at_useClipboard = None, at_creationDate = None, at_completionDate = None\<rparr>"

text \<open>Two bulk requests: one creates a to-do, the other updates one.\<close>

definition exampleCreateItem :: "unit item" where
  "exampleCreateItem = [(js ''type'', JStr (js ''to-do''))]"

definition exampleUpdateItem :: "unit item" where
  "exampleUpdateItem =
     [(js ''type'', JStr (js ''to-do'')), (js ''operation'', JStr (js ''update'')),
      (js ''id'', JStr (js ''abc''))]"

definition exampleBulkCreate :: "unit AddJsonParams" where
  "exampleBulkCreate = \<lparr>aj_items = [exampleCreateItem], aj_reveal = None\<rparr>"

definition exampleBulkUpdate :: "unit AddJsonParams" where
  "exampleBulkUpdate = \<lparr>aj_items = [exampleCreateItem, exampleUpdateItem], aj_reveal = None\<rparr>"

text \<open>The text of \<open>JSON.stringify\<close> in the examples: that of \<open>[{"type":"to-do"}]\<close>.\<close>

definition exampleStringify :: "unit item list \<Rightarrow> jsstring" where
  "exampleStringify items = [0x5B, 0x7B, 0x22] @ js ''type'' @ [0x22, 0x3A, 0x22] @ js ''to-do'' @ [0x22, 0x7D, 0x5D]"

text \<open>A helper run that succeeds and reports nothing.\<close>

definition exampleExecute :: "jsstring \<Rightarrow> error + ExecuteResult" where
  "exampleExecute url = Inr \<lparr>success = True, thingsId = None, callbackParams = None\<rparr>"

section \<open>Properties of the URL builder\<close>

subsection \<open>Percent-encoding\<close>

lemma unreserved_not_surrogate:
  "uriUnreserved c \<Longrightarrow> \<not> isLeadSurrogate c \<and> \<not> isTrailSurrogate c"
  unfolding uriUnreserved_def isLeadSurrogate_def isTrailSurrogate_def
  by (elim disjE conjE; simp add: word_le_nat_alt; fastforce)

lemma lead_not_trail: "isLeadSurrogate c \<Longrightarrow> \<not> isTrailSurrogate c"
  by (simp add: isLeadSurrogate_def isTrailSurrogate_def word_le_nat_alt)

lemma encode_wellFormed_ex:
  "wellFormed s \<Longrightarrow> \<exists>e. encodeURIComponent s = Inr e"
proof (induction s rule: encodeURIComponent.induct)
  case 1
  show ?case by simp
next
  case (2 c)
  then show ?case by simp
next
  case (3 c d ds)
  show ?case
  proof (cases "uriUnreserved c")
    case True
    then have "wellFormed (d # ds)"
      using "3.prems" unreserved_not_surrogate [of c] by simp
    then obtain e where "encodeURIComponent (d # ds) = Inr e"
      using "3.IH"(1) True by blast
    then show ?thesis using True by (simp add: bindE_def)
  next
    case False
    note unres = this
    show ?thesis
    proof (cases "isLeadSurrogate c")
      case True
      then have nt: "\<not> isTrailSurrogate c" by (rule lead_not_trail)
      from True "3.prems" have d: "isTrailSurrogate d" and "wellFormed ds" by simp_all
      then obtain e where "encodeURIComponent ds = Inr e"
        using "3.IH"(2) unres nt True by blast
      then show ?thesis using unres nt True d by (simp add: bindE_def)
    next
      case False
      with "3.prems" have nt: "\<not> isTrailSurrogate c" and "wellFormed (d # ds)" by simp_all
      then obtain e where "encodeURIComponent (d # ds) = Inr e"
        using "3.IH"(3) unres False by blast
      then show ?thesis using unres nt False by (simp add: bindE_def)
    qed
  qed
qed

lemma encode_wellFormed:
  "wellFormed s \<Longrightarrow> encodeURIComponent s = Inr (pct s)"
  using encode_wellFormed_ex [of s] by (auto simp: pct_def)

lemma buildParts_wellFormed:
  "\<forall>p\<in>set ps. wellFormedParam p \<Longrightarrow>
   buildParts ps acc = Inr (acc @ map emit (filter isDefined ps))"
proof (induction ps arbitrary: acc)
  case Nil
  show ?case by simp
next
  case (Cons p ps)
  obtain k v where p: "p = (k, v)" by (cases p)
  have IH: "buildParts ps acc' = Inr (acc' @ map emit (filter isDefined ps))" for acc'
    using Cons by simp
  show ?case
  proof (cases v)
    case Undefined
    then show ?thesis using p IH by simp
  next
    case (Bool bv)
    then show ?thesis using p IH Cons.prems
      by (simp add: encode_def encode_wellFormed bindE_def)
  next
    case (Str s)
    then show ?thesis using p IH Cons.prems
      by (simp add: encode_def encode_wellFormed bindE_def)
  qed
qed

lemma encode_not_wellFormed:
  "\<not> wellFormed s \<Longrightarrow> encodeURIComponent s = Inl URIError"
proof (induction s rule: encodeURIComponent.induct)
  case 1
  then show ?case by simp
next
  case (2 c)
  then show ?case using unreserved_not_surrogate [of c] by auto
next
  case (3 c d ds)
  show ?case
  proof (cases "uriUnreserved c")
    case True
    then have "\<not> wellFormed (d # ds)"
      using "3.prems" unreserved_not_surrogate [of c] by simp
    then have "encodeURIComponent (d # ds) = Inl URIError"
      using "3.IH"(1) True by blast
    then show ?thesis using True by (simp add: bindE_def)
  next
    case False
    note unres = this
    show ?thesis
    proof (cases "isTrailSurrogate c")
      case True
      then show ?thesis using unres by simp
    next
      case False
      note nt = this
      show ?thesis
      proof (cases "isLeadSurrogate c")
        case True
        show ?thesis
        proof (cases "isTrailSurrogate d")
          case d: True
          then have "\<not> wellFormed ds" using "3.prems" True by simp
          then have "encodeURIComponent ds = Inl URIError"
            using "3.IH"(2) unres nt True d by blast
          then show ?thesis using unres nt True d by (simp add: bindE_def)
        next
          case False
          then show ?thesis using unres nt True by simp
        qed
      next
        case False
        then have "\<not> wellFormed (d # ds)" using "3.prems" nt by simp
        then have "encodeURIComponent (d # ds) = Inl URIError"
          using "3.IH"(3) unres nt False by blast
        then show ?thesis using unres nt False by (simp add: bindE_def)
      qed
    qed
  qed
qed

lemma buildParts_not_wellFormed:
  "\<exists>p\<in>set ps. \<not> wellFormedParam p \<Longrightarrow> buildParts ps acc = Inl URIError"
proof (induction ps arbitrary: acc)
  case Nil
  then show ?case by simp
next
  case (Cons p ps)
  obtain k v where p: "p = (k, v)" by (cases p)
  have IH: "buildParts ps acc' = Inl URIError" if "wellFormedParam p" for acc'
    using Cons that by auto
  show ?case
  proof (cases v)
    case Undefined
    then show ?thesis using p IH by simp
  next
    case (Bool bv)
    show ?thesis
    proof (cases "wellFormed k")
      case True
      then show ?thesis using p Bool IH by (simp add: encode_def encode_wellFormed bindE_def)
    next
      case False
      then show ?thesis using p Bool by (simp add: encode_def encode_not_wellFormed bindE_def)
    qed
  next
    case (Str s)
    show ?thesis
    proof (cases "wellFormed k")
      case True
      note k = this
      show ?thesis
      proof (cases "wellFormed s")
        case True
        then show ?thesis using p Str IH k by (simp add: encode_def encode_wellFormed bindE_def)
      next
        case False
        then show ?thesis using p Str k
          by (simp add: encode_def encode_wellFormed encode_not_wellFormed bindE_def)
      qed
    next
      case False
      then show ?thesis using p Str by (simp add: encode_def encode_not_wellFormed bindE_def)
    qed
  qed
qed

lemma buildUrl_empty_credential:
  "buildUrl command params (Some []) = buildUrl command params None"
  by (simp add: buildUrl_def authParts_def)

lemma buildUrl_not_wellFormed:
  assumes "(case authToken of Some tok \<Rightarrow> \<not> wellFormed tok | None \<Rightarrow> False) \<or>
           (\<exists>p\<in>set params. \<not> wellFormedParam p)"
  shows "buildUrl command params authToken = Inl URIError"
proof (cases "case authToken of Some tok \<Rightarrow> \<not> wellFormed tok | None \<Rightarrow> False")
  case True
  then obtain tok where t: "authToken = Some tok" "\<not> wellFormed tok"
    by (cases authToken) auto
  then have "tok \<noteq> []" by auto
  then show ?thesis using t
    by (simp add: buildUrl_def authParts_def encode_def encode_not_wellFormed bindE_def)
next
  case False
  then have p: "\<exists>p\<in>set params. \<not> wellFormedParam p" using assms by blast
  have "\<exists>parts0. authParts authToken = Inr parts0"
    using False by (cases authToken) (auto simp: authParts_def encode_def encode_wellFormed bindE_def)
  then obtain parts0 where a: "authParts authToken = Inr parts0" ..
  show ?thesis
    by (simp add: buildUrl_def a bindE_def buildParts_not_wellFormed [OF p])
qed

lemma join_Cons: "join sep (x # xs) = x @ concat (map (\<lambda>p. sep @ p) xs)"
  by (induction xs arbitrary: x) simp_all

lemma emit_nonempty: "isDefined p \<Longrightarrow> emit p \<noteq> []"
  by (cases p rule: emit.cases) (simp_all add: js_def)

lemma join_nonempty: "parts \<noteq> [] \<Longrightarrow> \<forall>p\<in>set parts. p \<noteq> [] \<Longrightarrow> join sep parts \<noteq> []"
  by (cases parts) (simp_all add: join_Cons)


subsection \<open>The shape of a built URL\<close>

lemma replaceFirst_absent:
  "\<not> sublist pat s \<Longrightarrow> replaceFirst pat rep s = s"
proof (induction s)
  case Nil
  then show ?case by auto
next
  case (Cons c cs)
  then show ?case by (simp add: sublist_Cons_right)
qed

lemma urlSafe_append [simp]: "urlSafe (a @ b) \<longleftrightarrow> urlSafe a \<and> urlSafe b"
  by (auto simp: urlSafe_def)

lemma urlSafe_Nil [simp]: "urlSafe []"
  by (simp add: urlSafe_def)

lemma unreserved_safe: "uriUnreserved c \<Longrightarrow> c \<noteq> 0x3A \<and> c \<noteq> 0x2F"
  unfolding uriUnreserved_def
  by (elim disjE conjE; simp add: word_le_nat_alt; fastforce)

lemma hexDigit_safe: "hexDigit n \<noteq> 0x3A \<and> hexDigit n \<noteq> 0x2F"
proof -
  have "n mod 16 < length (js ''0123456789ABCDEF'')" by (simp add: js_def)
  then have "hexDigit n \<in> set (js ''0123456789ABCDEF'')"
    unfolding hexDigit_def by (rule nth_mem)
  then show ?thesis by (auto simp: js_def)
qed

lemma pctOctet_safe: "urlSafe (pctOctet b)"
  using hexDigit_safe by (simp add: urlSafe_def pctOctet_def)

lemma pctCodePoint_safe: "urlSafe (pctCodePoint cp)"
proof -
  have "urlSafe (concat (map pctOctet bs))" for bs
    by (induction bs) (simp_all add: pctOctet_safe)
  then show ?thesis by (simp add: pctCodePoint_def)
qed

lemma encodeURIComponent_safe:
  "encodeURIComponent s = Inr e \<Longrightarrow> urlSafe e"
proof (induction s arbitrary: e rule: encodeURIComponent.induct)
  case 1
  then show ?case by simp
next
  case (2 c)
  then show ?case
    using unreserved_safe [of c] pctCodePoint_safe
    by (auto simp: urlSafe_def split: if_splits)
next
  case (3 c d ds)
  show ?case
  proof (cases "uriUnreserved c")
    case True
    then obtain r where r: "encodeURIComponent (d # ds) = Inr r" and e: "e = c # r"
      using "3.prems" by (auto simp: bindE_def split: sum.splits)
    from "3.IH"(1) [OF True r] have "urlSafe r" .
    then show ?thesis using e unreserved_safe [OF True] by (simp add: urlSafe_def)
  next
    case False
    note unres = this
    then have nt: "\<not> isTrailSurrogate c"
      using "3.prems" by (auto split: if_splits)
    show ?thesis
    proof (cases "isLeadSurrogate c")
      case True
      then have d: "isTrailSurrogate d"
        using "3.prems" unres nt by (auto split: if_splits)
      then obtain r where r: "encodeURIComponent ds = Inr r"
        and e: "e = pctCodePoint (pairCodePoint c d) @ r"
        using "3.prems" unres nt True by (auto simp: bindE_def split: sum.splits)
      from "3.IH"(2) [OF unres nt True d r] have "urlSafe r" .
      then show ?thesis using e pctCodePoint_safe by simp
    next
      case False
      then obtain r where r: "encodeURIComponent (d # ds) = Inr r"
        and e: "e = pctCodePoint (unat c) @ r"
        using "3.prems" unres nt by (auto simp: bindE_def split: sum.splits)
      from "3.IH"(3) [OF unres nt False r] have "urlSafe r" .
      then show ?thesis using e pctCodePoint_safe by simp
    qed
  qed
qed

lemma buildParts_safe:
  "buildParts ps acc = Inr parts \<Longrightarrow> \<forall>p\<in>set acc. urlSafe p \<Longrightarrow> \<forall>p\<in>set parts. urlSafe p"
proof (induction ps arbitrary: acc parts)
  case Nil
  then show ?case by simp
next
  case (Cons p ps)
  obtain key v where p: "p = (key, v)" by (cases p)
  have eq: "urlSafe (js ''='')" "urlSafe (js ''true'')" "urlSafe (js ''false'')"
    by (simp_all add: urlSafe_def js_def)
  show ?case
  proof (cases v)
    case Undefined
    then show ?thesis using Cons p by simp
  next
    case (Bool b)
    define part where "part k = k @ js ''='' @ (if b then js ''true'' else js ''false'')" for k
    from Cons.prems(1) p Bool obtain k where k: "encodeURIComponent key = Inr k"
      and bp: "buildParts ps (acc @ [part k]) = Inr parts"
      by (cases "encodeURIComponent key") (simp_all add: bindE_def encode_def part_def)
    have "urlSafe k" using k by (rule encodeURIComponent_safe)
    then have "urlSafe (part k)" using eq by (simp add: part_def)
    then have "\<forall>q\<in>set (acc @ [part k]). urlSafe q" using Cons.prems(2) by simp
    with bp show ?thesis by (rule Cons.IH)
  next
    case (Str s)
    from Cons.prems(1) p Str obtain k where k: "encodeURIComponent key = Inr k"
      and r1: "bindE (encode s) (\<lambda>v. buildParts ps (acc @ [k @ js ''='' @ v])) = Inr parts"
      by (cases "encodeURIComponent key") (simp_all add: bindE_def encode_def)
    from r1 obtain w where w: "encodeURIComponent s = Inr w"
      and bp: "buildParts ps (acc @ [k @ js ''='' @ w]) = Inr parts"
      by (cases "encodeURIComponent s") (simp_all add: bindE_def encode_def)
    have "urlSafe k" using k by (rule encodeURIComponent_safe)
    moreover have "urlSafe w" using w by (rule encodeURIComponent_safe)
    ultimately have "urlSafe (k @ js ''='' @ w)" using eq by simp
    then have "\<forall>q\<in>set (acc @ [k @ js ''='' @ w]). urlSafe q" using Cons.prems(2) by simp
    with bp show ?thesis by (rule Cons.IH)
  qed
qed

lemma join_safe:
  "\<forall>p\<in>set parts. urlSafe p \<Longrightarrow> urlSafe (join (js ''&'') parts)"
  by (induction "js ''&''" parts rule: join.induct) (simp_all add: urlSafe_def js_def)

lemma commandName_safe: "urlSafe (commandName c)"
  by (cases c) (simp_all add: urlSafe_def js_def)

lemma buildUrl_shape:
  assumes "buildUrl command params authToken = Inr url"
  shows "\<exists>rest. url = js ''things:///x-callback-url/'' @ rest \<and> urlSafe rest"
proof -
  from assms obtain parts0 parts where a: "authParts authToken = Inr parts0"
    and bp: "buildParts params parts0 = Inr parts"
    and url: "url = (if join (js ''&'') parts \<noteq> []
            then js ''things:///x-callback-url/'' @ commandName command @ js ''?'' @ join (js ''&'') parts
            else js ''things:///x-callback-url/'' @ commandName command)"
    by (auto simp: buildUrl_def bindE_def Let_def split: sum.splits)
  have "\<forall>p\<in>set parts0. urlSafe p"
    using a encodeURIComponent_safe
    by (auto simp: authParts_def bindE_def encode_def urlSafe_def js_def split: option.splits if_splits sum.splits)
  then have "\<forall>p\<in>set parts. urlSafe p" using buildParts_safe [OF bp] by simp
  then have j: "urlSafe (join (js ''&'') parts)" by (rule join_safe)
  have q: "urlSafe (js ''?'')" by (simp add: urlSafe_def js_def)
  show ?thesis
  proof (cases "join (js ''&'') parts \<noteq> []")
    case True
    then have "url = js ''things:///x-callback-url/'' @ (commandName command @ js ''?'' @ join (js ''&'') parts)"
      using url by simp
    moreover have "urlSafe (commandName command @ js ''?'' @ join (js ''&'') parts)"
      using j q commandName_safe by simp
    ultimately show ?thesis by blast
  next
    case False
    then have "url = js ''things:///x-callback-url/'' @ commandName command"
      using url by simp
    then show ?thesis using commandName_safe by blast
  qed
qed

lemma authParts_safe:
  assumes "authParts authToken = Inr parts"
  shows "\<forall>p\<in>set parts. urlSafe p"
  using assms encodeURIComponent_safe
  by (auto simp: authParts_def bindE_def encode_def urlSafe_def js_def
      split: option.splits if_splits sum.splits)

lemma buildJsonUrl_shape:
  assumes "buildJsonUrl itemsJson authToken reveal = Inr url"
  shows "\<exists>rest. url = js ''things:///x-callback-url/'' @ rest \<and> urlSafe rest"
proof -
  define flag where "flag = (if reveal = Some True then [js ''reveal=true''] else [])"
  from assms obtain data auth where d: "encodeURIComponent itemsJson = Inr data"
    and a: "authParts authToken = Inr auth"
    and url: "url = js ''things:///x-callback-url/json?'' @
                join (js ''&'') ([js ''data='' @ data] @ auth @ flag)"
    by (auto simp: buildJsonUrl_def bindE_def flag_def split: sum.splits)
  have "urlSafe data" using d by (rule encodeURIComponent_safe)
  then have "urlSafe (js ''data='' @ data)" by (simp add: urlSafe_def js_def)
  moreover have "\<forall>p\<in>set auth. urlSafe p" using a by (rule authParts_safe)
  moreover have "\<forall>p\<in>set flag. urlSafe p" by (simp add: flag_def urlSafe_def js_def)
  ultimately have "\<forall>p\<in>set ([js ''data='' @ data] @ auth @ flag). urlSafe p" by auto
  then have j: "urlSafe (join (js ''&'') ([js ''data='' @ data] @ auth @ flag))"
    by (rule join_safe)
  have "urlSafe (js ''json?'')" by (simp add: urlSafe_def js_def)
  with j have "urlSafe (js ''json?'' @ join (js ''&'') ([js ''data='' @ data] @ auth @ flag))"
    by simp
  moreover have "url = js ''things:///x-callback-url/'' @
      (js ''json?'' @ join (js ''&'') ([js ''data='' @ data] @ auth @ flag))"
    using url by (simp add: js_def)
  ultimately show ?thesis by blast
qed

lemma replaceFirst_missing_char:
  "x \<in> set pat \<Longrightarrow> x \<notin> set s \<Longrightarrow> replaceFirst pat rep s = s"
proof (induction s)
  case Nil
  then show ?case by auto
next
  case (Cons c cs)
  then have "\<not> prefix pat (c # cs)" using set_mono_prefix by fastforce
  then show ?case using Cons by simp
qed

lemma toDirectUrl_callback: "toDirectUrl (js ''things:///x-callback-url/'' @ rest) = js ''things:///'' @ rest"
  by (simp add: toDirectUrl_def js_def)

lemma toDirectUrl_direct:
  assumes "urlSafe rest"
  shows "toDirectUrl (js ''things:///'' @ rest) = js ''things:///'' @ rest"
proof -
  have np: "\<not> prefix (js ''x-callback-url/'') rest"
    using assms set_mono_prefix [of "js ''x-callback-url/''" rest]
    by (auto simp: urlSafe_def js_def)
  have r: "replaceFirst (js ''things:///x-callback-url/'') (js ''things:///'') rest = rest"
    by (rule replaceFirst_missing_char [of "0x3A"]) (use assms in \<open>simp_all add: urlSafe_def js_def\<close>)
  show ?thesis
    using np r by (simp add: toDirectUrl_def js_def)
qed

subsection \<open>Claims about the URL builder\<close>

text \<open>
  Claim C2, as amended. For every command, every parameter mapping and every
  credential: when the credential is not empty and it and the emitted keys and string
  values of the mapping are well formed, \<open>buildUrl\<close> returns the URL in which
  \<open>auth-token=\<close> followed by the encoded credential stands immediately after the
  \<open>?\<close>, before every other parameter, and each other parameter follows after an
  \<open>&\<close>; when the credential is not empty and it or an entry with a defined value has
  a lone surrogate, \<open>buildUrl\<close> throws \<open>URIError\<close>; when the credential is the empty
  string, \<open>buildUrl\<close> returns what it returns without a credential.
\<close>

theorem buildUrl_credential_first:
  "(tok \<noteq> [] \<and> wellFormed tok \<and> (\<forall>p\<in>set params. wellFormedParam p) \<longrightarrow>
      buildUrl command params (Some tok) =
        Inr (js ''things:///x-callback-url/'' @ commandName command @ js ''?'' @
             js ''auth-token='' @ pct tok @
             concat (map (\<lambda>p. js ''&'' @ p) (map emit (filter isDefined params))))) \<and>
   (tok \<noteq> [] \<and> (\<not> wellFormed tok \<or> (\<exists>p\<in>set params. \<not> wellFormedParam p)) \<longrightarrow>
      buildUrl command params (Some tok) = Inl URIError) \<and>
   buildUrl command params (Some []) = buildUrl command params None"
proof (intro conjI impI)
  assume a: "tok \<noteq> [] \<and> wellFormed tok \<and> (\<forall>p\<in>set params. wellFormedParam p)"
  let ?a = "js ''auth-token='' @ pct tok"
  let ?rest = "map emit (filter isDefined params)"
  have ap: "authParts (Some tok) = Inr [?a]"
    using a by (simp add: authParts_def encode_def encode_wellFormed bindE_def)
  have wf: "\<forall>p\<in>set params. wellFormedParam p" using a by simp
  have bp: "buildParts params [?a] = Inr (?a # ?rest)"
    using buildParts_wellFormed [OF wf, of "[?a]"] by simp
  define Q where "Q = join (js ''&'') (?a # ?rest)"
  have Q: "Q = ?a @ concat (map (\<lambda>p. js ''&'' @ p) ?rest)"
    unfolding Q_def by (rule join_Cons)
  then have ne: "Q \<noteq> []" by (simp add: js_def)
  have "buildUrl command params (Some tok) =
          Inr (if Q \<noteq> [] then js ''things:///x-callback-url/'' @ commandName command @ js ''?'' @ Q
               else js ''things:///x-callback-url/'' @ commandName command)"
    by (simp add: buildUrl_def ap bp bindE_def Let_def Q_def del: join.simps)
  then show "buildUrl command params (Some tok) =
        Inr (js ''things:///x-callback-url/'' @ commandName command @ js ''?'' @
             js ''auth-token='' @ pct tok @
             concat (map (\<lambda>p. js ''&'' @ p) (map emit (filter isDefined params))))"
    using ne Q by simp
next
  assume "tok \<noteq> [] \<and> (\<not> wellFormed tok \<or> (\<exists>p\<in>set params. \<not> wellFormedParam p))"
  then have "(case Some tok of Some t \<Rightarrow> \<not> wellFormed t | None \<Rightarrow> False) \<or>
      (\<exists>p\<in>set params. \<not> wellFormedParam p)" by simp
  then show "buildUrl command params (Some tok) = Inl URIError"
    by (rule buildUrl_not_wellFormed)
next
  show "buildUrl command params (Some []) = buildUrl command params None"
    by (rule buildUrl_empty_credential)
qed

theorem buildUrl_credential_first_witness:
  "js ''token123'' \<noteq> [] \<and> wellFormed (js ''token123'') \<and>
   wellFormedParam (js ''id'', Str (js ''abc'')) \<and> wellFormedParam (js ''reveal'', Bool True) \<and>
   buildUrl Update [(js ''id'', Str (js ''abc'')), (js ''reveal'', Bool True)] (Some (js ''token123'')) =
     Inr (js ''things:///x-callback-url/update?auth-token=token123&id=abc&reveal=true'') \<and>
   \<not> wellFormedParam (js ''title'', Str [0xDC00]) \<and>
   buildUrl Update [(js ''id'', Str (js ''abc'')), (js ''title'', Str [0xDC00])]
     (Some (js ''token123'')) = Inl URIError \<and>
   \<not> wellFormed [0xD83D] \<and>
   buildUrl Update [(js ''id'', Str (js ''abc''))] (Some [0xD83D]) = Inl URIError \<and>
   buildUrl Update [(js ''id'', Str (js ''abc'')), (js ''reveal'', Bool True)] (Some []) =
     Inr (js ''things:///x-callback-url/update?id=abc&reveal=true'')"
proof -
  have h1: "js ''token123'' \<noteq> []" by (simp add: js_def)
  have h2: "wellFormed (js ''token123'')"
    by (simp add: js_def isLeadSurrogate_def isTrailSurrogate_def)
  have h3: "\<forall>p\<in>set [(js ''id'', Str (js ''abc'')), (js ''reveal'', Bool True)]. wellFormedParam p"
    by (simp add: js_def isLeadSurrogate_def isTrailSurrogate_def)
  have h4: "\<not> wellFormedParam (js ''title'', Str [0xDC00])"
    by (simp add: isLeadSurrogate_def isTrailSurrogate_def)
  have h5: "\<not> wellFormed [0xD83D :: jschar]"
    by (simp add: isLeadSurrogate_def isTrailSurrogate_def)
  note t1 = buildUrl_credential_first [of "js ''token123''"
      "[(js ''id'', Str (js ''abc'')), (js ''reveal'', Bool True)]" Update]
  note t2 = buildUrl_credential_first [of "js ''token123''"
      "[(js ''id'', Str (js ''abc'')), (js ''title'', Str [0xDC00])]" Update]
  note t3 = buildUrl_credential_first [of "[0xD83D]" "[(js ''id'', Str (js ''abc''))]" Update]
  have r1: "buildUrl Update [(js ''id'', Str (js ''abc'')), (js ''reveal'', Bool True)]
      (Some (js ''token123'')) =
        Inr (js ''things:///x-callback-url/'' @ commandName Update @ js ''?'' @
             js ''auth-token='' @ pct (js ''token123'') @
             concat (map (\<lambda>p. js ''&'' @ p) (map emit (filter isDefined
               [(js ''id'', Str (js ''abc'')), (js ''reveal'', Bool True)]))))"
    using t1 h1 h2 h3 by blast
  have r2: "buildUrl Update [(js ''id'', Str (js ''abc'')), (js ''title'', Str [0xDC00])]
     (Some (js ''token123'')) = Inl URIError"
  proof -
    have "js ''token123'' \<noteq> [] \<and> (\<not> wellFormed (js ''token123'') \<or>
        (\<exists>p\<in>set [(js ''id'', Str (js ''abc'')), (js ''title'', Str [0xDC00])]. \<not> wellFormedParam p))"
      using h1 h4 by simp
    then show ?thesis using t2 by blast
  qed
  have r3: "buildUrl Update [(js ''id'', Str (js ''abc''))] (Some [0xD83D]) = Inl URIError"
  proof -
    have "[0xD83D :: jschar] \<noteq> [] \<and> (\<not> wellFormed [0xD83D :: jschar] \<or>
        (\<exists>p\<in>set [(js ''id'', Str (js ''abc''))]. \<not> wellFormedParam p))"
      using h5 by simp
    then show ?thesis using t3 by blast
  qed
  have r4: "buildUrl Update [(js ''id'', Str (js ''abc'')), (js ''reveal'', Bool True)] (Some []) =
      buildUrl Update [(js ''id'', Str (js ''abc'')), (js ''reveal'', Bool True)] None"
    using t1 by blast
  have n: "buildUrl Update [(js ''id'', Str (js ''abc'')), (js ''reveal'', Bool True)] None =
      Inr (js ''things:///x-callback-url/update?id=abc&reveal=true'')"
    by (simp add: buildUrl_def authParts_def encode_def bindE_def js_def uriUnreserved_def)
  have r1': "buildUrl Update [(js ''id'', Str (js ''abc'')), (js ''reveal'', Bool True)]
      (Some (js ''token123'')) =
     Inr (js ''things:///x-callback-url/update?auth-token=token123&id=abc&reveal=true'')"
    unfolding r1 by (simp add: pct_def js_def uriUnreserved_def bindE_def)
  show ?thesis
    using h1 h2 h3 h4 h5 r1' r2 r3 r4 n by simp
qed

text \<open>
  Claim C2 as stated fails for the empty credential: \<open>if (authToken)\<close> treats the empty
  string as absent, so no \<open>auth-token\<close> parameter is emitted and \<open>id\<close> comes first.
  It fails as well for a credential with a lone surrogate, on which
  \<open>encodeURIComponent\<close> throws \<open>URIError\<close>.
\<close>

theorem buildUrl_empty_credential_omitted:
  "buildUrl Update [(js ''id'', Str (js ''abc''))] (Some []) =
     Inr (js ''things:///x-callback-url/update?id=abc'') \<and>
   \<not> prefix (js ''things:///x-callback-url/update?auth-token='')
       (js ''things:///x-callback-url/update?id=abc'') \<and>
   buildUrl Update [(js ''id'', Str (js ''abc''))] (Some [0xD800]) = Inl URIError"
  by (simp add: buildUrl_def authParts_def encode_def bindE_def js_def uriUnreserved_def
      isLeadSurrogate_def isTrailSurrogate_def)

text \<open>
  Claim C3, as amended. For every command and every parameter mapping, \<open>buildUrl\<close>
  without a credential behaves as follows. When the emitted keys and string values
  are well formed, it returns the command URL followed by exactly the parameters
  whose value is defined, in iteration order: an undefined value emits nothing, an
  empty string emits \<open>key=\<close>, a boolean emits \<open>key=true\<close> or \<open>key=false\<close>; with no
  parameter left the result is the command-only URL, which has no \<open>?\<close>. When an
  entry with a defined value has a lone surrogate in its key or in its string value,
  \<open>buildUrl\<close> throws \<open>URIError\<close>; an entry with an undefined value is skipped before
  its key is looked at.
\<close>

theorem buildUrl_emits_defined:
  "((\<forall>p\<in>set params. wellFormedParam p) \<longrightarrow>
      buildUrl command params None =
        Inr (js ''things:///x-callback-url/'' @ commandName command @
             queryString (map emit (filter isDefined params)))) \<and>
   ((\<exists>p\<in>set params. \<not> wellFormedParam p) \<longrightarrow> buildUrl command params None = Inl URIError) \<and>
   0x3F \<notin> set (js ''things:///x-callback-url/'' @ commandName command)"
proof (intro conjI impI)
  let ?parts = "map emit (filter isDefined params)"
  assume wf: "\<forall>p\<in>set params. wellFormedParam p"
  have bp: "buildParts params [] = Inr ?parts"
    using buildParts_wellFormed [OF wf, of "[]"] by simp
  have ne: "?parts \<noteq> [] \<Longrightarrow> join (js ''&'') ?parts \<noteq> []"
    by (rule join_nonempty) (auto simp: emit_nonempty)
  show "buildUrl command params None =
           Inr (js ''things:///x-callback-url/'' @ commandName command @ queryString ?parts)"
    using ne by (auto simp: buildUrl_def authParts_def bindE_def bp queryString_def Let_def)
next
  assume "\<exists>p\<in>set params. \<not> wellFormedParam p"
  then have "(case None of Some t \<Rightarrow> \<not> wellFormed t | None \<Rightarrow> False) \<or>
      (\<exists>p\<in>set params. \<not> wellFormedParam p)" by simp
  then show "buildUrl command params None = Inl URIError"
    by (rule buildUrl_not_wellFormed)
next
  show "0x3F \<notin> set (js ''things:///x-callback-url/'' @ commandName command)"
    by (cases command) (simp_all add: js_def)
qed

theorem buildUrl_emits_defined_witness:
  "wellFormedParam (js ''title'', Str (js ''Test'')) \<and> wellFormedParam (js ''notes'', Undefined) \<and>
   wellFormedParam (js ''deadline'', Str []) \<and> wellFormedParam (js ''completed'', Bool False) \<and>
   buildUrl Add [(js ''title'', Str (js ''Test'')), (js ''notes'', Undefined),
                 (js ''deadline'', Str []), (js ''completed'', Bool False)] None =
     Inr (js ''things:///x-callback-url/add?title=Test&deadline=&completed=false'') \<and>
   buildUrl Add [(js ''notes'', Undefined), (js ''deadline'', Undefined)] None =
     Inr (js ''things:///x-callback-url/add'') \<and>
   wellFormedParam ([0xD800], Undefined) \<and>
   buildUrl Add [([0xD800], Undefined)] None = Inr (js ''things:///x-callback-url/add'') \<and>
   \<not> wellFormedParam ([0xD800], Bool True) \<and>
   buildUrl Add [(js ''title'', Str (js ''Test'')), ([0xD800], Bool True)] None = Inl URIError"
proof -
  have h1: "\<forall>p\<in>set [(js ''title'', Str (js ''Test'')), (js ''notes'', Undefined),
               (js ''deadline'', Str []), (js ''completed'', Bool False)]. wellFormedParam p"
    by (simp add: js_def isLeadSurrogate_def isTrailSurrogate_def)
  have h2: "\<forall>p\<in>set [(js ''notes'', Undefined), (js ''deadline'', Undefined)]. wellFormedParam p"
    by simp
  have h3: "\<forall>p\<in>set [([0xD800], Undefined)]. wellFormedParam p"
    by simp
  have h4: "\<not> wellFormedParam ([0xD800], Bool True)"
    by (simp add: isLeadSurrogate_def isTrailSurrogate_def)
  then have h4': "\<exists>p\<in>set [(js ''title'', Str (js ''Test'')), ([0xD800], Bool True)]. \<not> wellFormedParam p"
    by simp
  note t1 = buildUrl_emits_defined [of "[(js ''title'', Str (js ''Test'')), (js ''notes'', Undefined),
               (js ''deadline'', Str []), (js ''completed'', Bool False)]" Add]
  note t2 = buildUrl_emits_defined [of "[(js ''notes'', Undefined), (js ''deadline'', Undefined)]" Add]
  note t3 = buildUrl_emits_defined [of "[([0xD800], Undefined)]" Add]
  note t4 = buildUrl_emits_defined [of "[(js ''title'', Str (js ''Test'')), ([0xD800], Bool True)]" Add]
  have r1: "buildUrl Add [(js ''title'', Str (js ''Test'')), (js ''notes'', Undefined),
                 (js ''deadline'', Str []), (js ''completed'', Bool False)] None =
     Inr (js ''things:///x-callback-url/add?title=Test&deadline=&completed=false'')"
    using t1 [THEN conjunct1] h1
    by (simp add: queryString_def pct_def js_def uriUnreserved_def bindE_def)
  have r2: "buildUrl Add [(js ''notes'', Undefined), (js ''deadline'', Undefined)] None =
     Inr (js ''things:///x-callback-url/add'')"
    using t2 [THEN conjunct1] h2 by (simp add: queryString_def js_def)
  have r3: "buildUrl Add [([0xD800], Undefined)] None = Inr (js ''things:///x-callback-url/add'')"
    using t3 [THEN conjunct1] h3 by (simp add: queryString_def js_def)
  have r4: "buildUrl Add [(js ''title'', Str (js ''Test'')), ([0xD800], Bool True)] None = Inl URIError"
    using t4 h4' by blast
  show ?thesis
    using h1 h3 h4 r1 r2 r3 r4 by simp
qed

text \<open>
  Claim C3 as stated fails on a value with a lone surrogate: \<open>encodeURIComponent\<close>
  throws \<open>URIError\<close> and no URL is produced, although the parameter is defined.
\<close>

theorem buildUrl_lone_surrogate_throws:
  "buildUrl Add [(js ''title'', Str [0xD800])] None = Inl URIError"
  by (simp add: buildUrl_def authParts_def encode_def bindE_def js_def uriUnreserved_def
      isLeadSurrogate_def isTrailSurrogate_def)

text \<open>
  Claim C4, as amended. \<open>toDirectUrl\<close> is the identity on every string in which
  \<open>things:///x-callback-url/\<close> does not occur, and on every URL that \<open>buildUrl\<close> or
  \<open>buildJsonUrl\<close> returns it replaces the 25 code units of the callback prefix by
  \<open>things:///\<close> and is idempotent.
\<close>

theorem toDirectUrl_direct_form:
  "(\<not> sublist (js ''things:///x-callback-url/'') x \<longrightarrow> toDirectUrl x = x) \<and>
   (buildUrl command params authToken = Inr url \<or>
    buildJsonUrl itemsJson authToken reveal = Inr url \<longrightarrow>
      toDirectUrl url = js ''things:///'' @ drop 25 url \<and>
      toDirectUrl (toDirectUrl url) = toDirectUrl url)"
proof (intro conjI impI)
  assume "\<not> sublist (js ''things:///x-callback-url/'') x"
  then show "toDirectUrl x = x"
    unfolding toDirectUrl_def by (rule replaceFirst_absent)
next
  assume "buildUrl command params authToken = Inr url \<or>
    buildJsonUrl itemsJson authToken reveal = Inr url"
  then obtain rest where url: "url = js ''things:///x-callback-url/'' @ rest" and s: "urlSafe rest"
    using buildUrl_shape buildJsonUrl_shape by blast
  have d: "drop 25 url = rest" using url by (simp add: js_def)
  show "toDirectUrl url = js ''things:///'' @ drop 25 url"
    using url d toDirectUrl_callback by simp
  show "toDirectUrl (toDirectUrl url) = toDirectUrl url"
    using url toDirectUrl_callback toDirectUrl_direct [OF s] by simp
qed

theorem toDirectUrl_direct_form_witness:
  "\<not> sublist (js ''things:///x-callback-url/'') (js ''things:///add?title=Test'') \<and>
   toDirectUrl (js ''things:///add?title=Test'') = js ''things:///add?title=Test'' \<and>
   buildUrl Add [(js ''title'', Str (js ''Buy milk''))] None =
     Inr (js ''things:///x-callback-url/add?title=Buy%20milk'') \<and>
   toDirectUrl (js ''things:///x-callback-url/add?title=Buy%20milk'') =
     js ''things:///add?title=Buy%20milk'' \<and>
   toDirectUrl (toDirectUrl (js ''things:///x-callback-url/add?title=Buy%20milk'')) =
     toDirectUrl (js ''things:///x-callback-url/add?title=Buy%20milk'')"
proof -
  have h1: "\<not> sublist (js ''things:///x-callback-url/'') (js ''things:///add?title=Test'')"
    by (simp add: js_def sublist_Cons_right)
  have h2: "buildUrl Add [(js ''title'', Str (js ''Buy milk''))] None =
     Inr (js ''things:///x-callback-url/add?title=Buy%20milk'')"
    by (simp add: buildUrl_def authParts_def encode_def bindE_def js_def uriUnreserved_def
        isLeadSurrogate_def isTrailSurrogate_def pctCodePoint_def utf8_def pctOctet_def hexDigit_def)
  note t = toDirectUrl_direct_form [of "js ''things:///add?title=Test''" Add
      "[(js ''title'', Str (js ''Buy milk''))]" None
      "js ''things:///x-callback-url/add?title=Buy%20milk''"]
  have a: "toDirectUrl (js ''things:///add?title=Test'') = js ''things:///add?title=Test''"
    using t h1 by blast
  have b: "toDirectUrl (js ''things:///x-callback-url/add?title=Buy%20milk'') =
      js ''things:///'' @ drop 25 (js ''things:///x-callback-url/add?title=Buy%20milk'')"
    using t h2 by blast
  have c: "toDirectUrl (toDirectUrl (js ''things:///x-callback-url/add?title=Buy%20milk'')) =
      toDirectUrl (js ''things:///x-callback-url/add?title=Buy%20milk'')"
    using t h2 by blast
  have d: "js ''things:///'' @ drop 25 (js ''things:///x-callback-url/add?title=Buy%20milk'') =
      js ''things:///add?title=Buy%20milk''"
    by (simp add: js_def)
  show ?thesis
    using h1 h2 a b c d by simp
qed

text \<open>
  Claim C4 as stated fails: \<open>replace\<close> rewrites the first occurrence only, so a string
  in which the callback prefix occurs again after the rewriting is changed a second
  time.
\<close>

theorem toDirectUrl_not_idempotent:
  "toDirectUrl (toDirectUrl (js ''things:///x-callback-url/x-callback-url/add'')) \<noteq>
   toDirectUrl (js ''things:///x-callback-url/x-callback-url/add'')"
  by (simp add: toDirectUrl_def js_def)

section \<open>Properties of the output parser\<close>

lemma mapEntries_coercible:
  "\<forall>(k, v)\<in>set ms. coercible num v \<Longrightarrow>
   mapEntries num ms = Inr (map (\<lambda>(k, v). (k, coerced num v)) ms)"
proof (induction ms)
  case Nil
  show ?case by simp
next
  case (Cons m ms)
  obtain k v where m: "m = (k, v)" by (cases m)
  from Cons.prems m have "coercible num v" by simp
  then have "toStringJS num v = Inr (coerced num v)"
    by (simp add: coercible_def coerced_def split: sum.splits)
  then show ?case using Cons m by (simp add: bindE_def)
qed

lemma fold_upd_distinct:
  "distinct (map fst es) \<Longrightarrow>
   fold (\<lambda>(k, v) m. m(k \<mapsto> v)) es m0 = m0 ++ map_of es"
proof (induction es arbitrary: m0)
  case Nil
  show ?case by simp
next
  case (Cons e es)
  obtain k v where e: "e = (k, v)" by (cases e)
  from Cons.prems e have k: "k \<notin> dom (map_of es)" and d: "distinct (map fst es)"
    by (auto simp: dom_map_of_conv_image_fst)
  have "fold (\<lambda>(k, v) m. m(k \<mapsto> v)) (e # es) m0 =
          fold (\<lambda>(k, v) m. m(k \<mapsto> v)) es (m0(k \<mapsto> v))"
    by (simp only: e fold_simps case_prod_conv)
  also have "\<dots> = m0(k \<mapsto> v) ++ map_of es"
    by (rule Cons.IH [OF d])
  also have "\<dots> = (m0 ++ map_of es)(k \<mapsto> v)"
    using k by (rule map_add_upd_left)
  also have "\<dots> = m0 ++ map_of (e # es)"
    using e by simp
  finally show ?case .
qed

lemma fromEntries_distinct:
  "distinct (map fst es) \<Longrightarrow> fromEntries es = map_of es"
  by (simp add: fromEntries_def fold_upd_distinct)

lemma map_of_nonNull:
  "distinct (map fst ms) \<Longrightarrow>
   map_of (map (\<lambda>(k, v). (k, f v)) (filter (\<lambda>(k, v). v \<noteq> JNull) ms)) key =
     (case map_of ms key of None \<Rightarrow> None | Some v \<Rightarrow> if v = JNull then None else Some (f v))"
proof (induction ms)
  case Nil
  show ?case by simp
next
  case (Cons m ms)
  obtain k v where m: "m = (k, v)" by (cases m)
  from Cons.prems m have k: "map_of ms k = None" and d: "distinct (map fst ms)"
    by (auto simp: map_of_eq_None_iff)
  show ?case using Cons.IH [OF d] m k by (auto split: option.splits)
qed

lemma map_fst_mapped: "map fst (map (\<lambda>(k, v). (k, f v)) xs) = map fst xs"
  by (induction xs) auto

lemma exampleParse_values:
  "exampleParse (js ''abc123'') = None"
  "exampleParse exampleOutput = Some (JObj exampleMembers)"
  "exampleParse exampleNested = Some (JObj exampleNestedMembers)"
  "exampleParse (quoted (js ''abc'')) = Some (JStr (js ''abc''))"
  "exampleOutput \<noteq> []" "exampleNested \<noteq> []" "quoted (js ''abc'') \<noteq> []" "js ''abc123'' \<noteq> []"
  by (simp_all add: exampleParse_def exampleOutput_def exampleNested_def quoted_def js_def)

text \<open>
  Claim C5, as amended. Empty output yields success with no identifier and no fields
  mapping. Output on which \<open>JSON.parse\<close> throws, or which parses as something other
  than an object, yields success with the raw output as the primary identifier and
  no fields mapping. Output that parses as an object (not an array) whose members
  other than \<open>null\<close> can be converted to strings yields success with a fields mapping
  that holds, for every member whose value is not \<open>null\<close>, the string form of the
  value (a \<open>null\<close> member is left out), and the primary identifier is the field
  \<open>x-things-id\<close>, falling back to \<open>x-things-ids\<close>.
\<close>

theorem parseXcallOutput_cases:
  "parseXcallOutput JSON_parse num [] = \<lparr>success = True, thingsId = None, callbackParams = None\<rparr> \<and>
   (raw \<noteq> [] \<and> (JSON_parse raw = None \<or> (JSON_parse raw = Some v \<and> (\<forall>ms. v \<noteq> JObj ms))) \<longrightarrow>
      parseXcallOutput JSON_parse num raw =
        \<lparr>success = True, thingsId = Some raw, callbackParams = None\<rparr>) \<and>
   (raw \<noteq> [] \<and> JSON_parse raw = Some (JObj members) \<and> distinct (map fst members) \<and>
    (\<forall>(k, v)\<in>set members. v \<noteq> JNull \<longrightarrow> coercible num v) \<longrightarrow>
      parseXcallOutput JSON_parse num raw =
        \<lparr>success = True,
         thingsId =
           (case expectedFields num members (js ''x-things-id'') of
              Some i \<Rightarrow> Some i
            | None \<Rightarrow> expectedFields num members (js ''x-things-ids'')),
         callbackParams = Some (expectedFields num members)\<rparr>)"
proof (intro conjI impI)
  show "parseXcallOutput JSON_parse num [] = \<lparr>success = True, thingsId = None, callbackParams = None\<rparr>"
    by (simp add: parseXcallOutput_def)
next
  assume a: "raw \<noteq> [] \<and> (JSON_parse raw = None \<or> (JSON_parse raw = Some v \<and> (\<forall>ms. v \<noteq> JObj ms)))"
  show "parseXcallOutput JSON_parse num raw =
        \<lparr>success = True, thingsId = Some raw, callbackParams = None\<rparr>"
  proof (cases "JSON_parse raw")
    case None
    then show ?thesis using a by (simp add: parseXcallOutput_def)
  next
    case (Some w)
    then have "w = v" and "\<forall>ms. v \<noteq> JObj ms" using a by simp_all
    then show ?thesis using a Some by (cases v) (simp_all add: parseXcallOutput_def)
  qed
next
  let ?kept = "filter (\<lambda>(key, value). value \<noteq> JNull) members"
  let ?entries = "map (\<lambda>(k, v). (k, coerced num v)) ?kept"
  assume a: "raw \<noteq> [] \<and> JSON_parse raw = Some (JObj members) \<and> distinct (map fst members) \<and>
    (\<forall>(k, v)\<in>set members. v \<noteq> JNull \<longrightarrow> coercible num v)"
  then have d: "distinct (map fst members)" by simp
  have "\<forall>(k, v)\<in>set ?kept. coercible num v" using a by auto
  then have me: "mapEntries num ?kept = Inr ?entries" by (rule mapEntries_coercible)
  have "distinct (map fst ?kept)" using d by (simp add: distinct_map_filter)
  then have "distinct (map fst ?entries)" by (simp only: map_fst_mapped)
  then have "fromEntries ?entries = map_of ?entries" by (rule fromEntries_distinct)
  also have "\<dots> = expectedFields num members"
    using map_of_nonNull [OF d, of "coerced num"] by (auto simp: expectedFields_def fun_eq_iff)
  finally have fe: "fromEntries ?entries = expectedFields num members" .
  show "parseXcallOutput JSON_parse num raw =
        \<lparr>success = True,
         thingsId =
           (case expectedFields num members (js ''x-things-id'') of
              Some i \<Rightarrow> Some i
            | None \<Rightarrow> expectedFields num members (js ''x-things-ids'')),
         callbackParams = Some (expectedFields num members)\<rparr>"
    using a by (simp add: parseXcallOutput_def me fe Let_def)
qed

theorem parseXcallOutput_cases_witness:
  "parseXcallOutput exampleParse (\<lambda>n. []) [] =
     \<lparr>success = True, thingsId = None, callbackParams = None\<rparr> \<and>
   js ''abc123'' \<noteq> [] \<and> exampleParse (js ''abc123'') = None \<and>
   parseXcallOutput exampleParse (\<lambda>n. []) (js ''abc123'') =
     \<lparr>success = True, thingsId = Some (js ''abc123''), callbackParams = None\<rparr> \<and>
   quoted (js ''abc'') \<noteq> [] \<and> exampleParse (quoted (js ''abc'')) = Some (JStr (js ''abc'')) \<and>
   parseXcallOutput exampleParse (\<lambda>n. []) (quoted (js ''abc'')) =
     \<lparr>success = True, thingsId = Some (quoted (js ''abc'')), callbackParams = None\<rparr> \<and>
   exampleOutput \<noteq> [] \<and> exampleParse exampleOutput = Some (JObj exampleMembers) \<and>
   distinct (map fst exampleMembers) \<and>
   coercible (\<lambda>n. []) (JStr (js ''a,b'') :: int json) \<and>
   success (parseXcallOutput exampleParse (\<lambda>n. []) exampleOutput) \<and>
   thingsId (parseXcallOutput exampleParse (\<lambda>n. []) exampleOutput) = Some (js ''a,b'') \<and>
   map_option (\<lambda>fields. fields (js ''x-things-ids''))
     (callbackParams (parseXcallOutput exampleParse (\<lambda>n. []) exampleOutput)) =
     Some (Some (js ''a,b''))"
proof -
  have p1: "js ''abc123'' \<noteq> [] \<and> (exampleParse (js ''abc123'') = None \<or>
      (exampleParse (js ''abc123'') = Some v \<and> (\<forall>ms. v \<noteq> JObj ms)))" for v
    by (simp add: exampleParse_values)
  have p3: "quoted (js ''abc'') \<noteq> [] \<and> (exampleParse (quoted (js ''abc'')) = None \<or>
      (exampleParse (quoted (js ''abc'')) = Some (JStr (js ''abc'')) \<and>
       (\<forall>ms. JStr (js ''abc'') \<noteq> (JObj ms :: int json))))"
    by (simp add: exampleParse_values)
  have c: "coercible (\<lambda>n. []) (JStr (js ''a,b'') :: int json)"
    by (simp add: coercible_def)
  have d: "distinct (map fst exampleMembers)"
    by (simp add: exampleMembers_def js_def)
  have p2: "exampleOutput \<noteq> [] \<and> exampleParse exampleOutput = Some (JObj exampleMembers) \<and>
      distinct (map fst exampleMembers) \<and>
      (\<forall>(k, v)\<in>set exampleMembers. v \<noteq> JNull \<longrightarrow> coercible (\<lambda>n. []) v)"
    using d by (simp add: exampleParse_values) (simp add: exampleMembers_def coercible_def)
  note t1 = parseXcallOutput_cases [of exampleParse "\<lambda>n. []" "js ''abc123''" JNull "[]"]
  note t2 = parseXcallOutput_cases [of exampleParse "\<lambda>n. []" exampleOutput JNull exampleMembers]
  note t3 = parseXcallOutput_cases [of exampleParse "\<lambda>n. []" "quoted (js ''abc'')"
      "JStr (js ''abc'')" "[]"]
  have r0: "parseXcallOutput exampleParse (\<lambda>n. []) [] =
      \<lparr>success = True, thingsId = None, callbackParams = None\<rparr>"
    using t1 by blast
  have r1: "parseXcallOutput exampleParse (\<lambda>n. []) (js ''abc123'') =
      \<lparr>success = True, thingsId = Some (js ''abc123''), callbackParams = None\<rparr>"
    using t1 p1 by blast
  have r3: "parseXcallOutput exampleParse (\<lambda>n. []) (quoted (js ''abc'')) =
      \<lparr>success = True, thingsId = Some (quoted (js ''abc'')), callbackParams = None\<rparr>"
    using t3 p3 by blast
  have r2: "parseXcallOutput exampleParse (\<lambda>n. []) exampleOutput =
        \<lparr>success = True,
         thingsId =
           (case expectedFields (\<lambda>n. []) exampleMembers (js ''x-things-id'') of
              Some i \<Rightarrow> Some i
            | None \<Rightarrow> expectedFields (\<lambda>n. []) exampleMembers (js ''x-things-ids'')),
         callbackParams = Some (expectedFields (\<lambda>n. []) exampleMembers)\<rparr>"
    using t2 p2 by blast
  have e1: "expectedFields (\<lambda>n. []) exampleMembers (js ''x-things-id'') = None"
    by (simp add: expectedFields_def exampleMembers_def js_def)
  have e2: "expectedFields (\<lambda>n. []) exampleMembers (js ''x-things-ids'') = Some (js ''a,b'')"
    by (simp add: expectedFields_def exampleMembers_def coerced_def)
  show ?thesis
    using c d r0 r1 r3 by (simp add: r2 e1 e2 exampleParse_values)
qed

text \<open>
  Claim C5 as stated fails on a member whose value is \<open>null\<close>: the \<open>filter\<close> before
  the conversion removes it, so the fields mapping of
  \<open>{"x-things-ids":"a,b","n":null}\<close> has no entry for \<open>n\<close>. It fails as well on a
  member that \<open>String\<close> cannot convert: on \<open>{"x-things-id":"abc","d":{"toString":""}}\<close>
  the conversion throws, the \<open>catch\<close> takes over, and the result has the raw output
  as its identifier and no fields mapping.
\<close>

theorem parseXcallOutput_drops_null_member:
  "map_of exampleMembers (js ''n'') = Some JNull \<and>
   map_option (\<lambda>fields. fields (js ''n''))
     (callbackParams (parseXcallOutput exampleParse (\<lambda>n. []) exampleOutput)) = Some None \<and>
   parseXcallOutput exampleParse (\<lambda>n. []) exampleNested =
     \<lparr>success = True, thingsId = Some exampleNested, callbackParams = None\<rparr>"
proof -
  have a: "map_of exampleMembers (js ''n'') = Some JNull"
    by (simp add: exampleMembers_def js_def)
  have b: "map_option (\<lambda>fields. fields (js ''n''))
     (callbackParams (parseXcallOutput exampleParse (\<lambda>n. []) exampleOutput)) = Some None"
    by (simp add: parseXcallOutput_def exampleParse_values)
      (simp add: exampleMembers_def fromEntries_def bindE_def js_def)
  have c: "parseXcallOutput exampleParse (\<lambda>n. []) exampleNested =
     \<lparr>success = True, thingsId = Some exampleNested, callbackParams = None\<rparr>"
    by (simp add: parseXcallOutput_def exampleParse_values)
      (simp add: exampleNestedMembers_def bindE_def)
  show ?thesis using a b c by simp
qed
section \<open>Properties of the date utilities\<close>

lemma digits_small: "n < 10 \<Longrightarrow> digits n = [js ''0123456789'' ! n]"
  by (simp add: digits.simps)

lemma digits_large:
  "10 \<le> n \<Longrightarrow> digits n = digits (n div 10) @ [js ''0123456789'' ! (n mod 10)]"
  by (subst digits.simps) simp

lemma replicate_2: "replicate 2 c = [c, c]"
  by (simp add: numeral_2_eq_2)

lemma replicate_3: "replicate 3 c = [c, c, c]"
  by (simp add: numeral_3_eq_3)

lemma civil_2001: "civilFromDays 11323 = (2001, 1, 1)"
  by code_simp

lemma civil_2002: "civilFromDays 11688 = (2002, 1, 1)"
  by code_simp

lemma digits_2001: "digits 2001 = js ''2001''"
  by (simp add: digits_small digits_large js_def)

lemma digits_2002: "digits 2002 = js ''2002''"
  by (simp add: digits_small digits_large js_def)

lemma digits_1: "digits (Suc 0) = js ''1''" "digits 0 = js ''0''"
  by (simp_all add: digits_small js_def)

lemma newDate_reference: "newDate 978307200000 = Some 978307200000"
  by (simp add: newDate_def)

lemma newDate_365: "newDate 1009843200000 = Some 1009843200000"
  by (simp add: newDate_def)

lemma fields_reference:
  "getUTCFullYear 978307200000 = 2001" "getUTCMonth 978307200000 = 0"
  "getUTCDate 978307200000 = 1"
  by (simp_all add: getUTCFullYear_def getUTCMonth_def getUTCDate_def civil_2001)

lemma fields_365:
  "getUTCFullYear 1009843200000 = 2002" "getUTCMonth 1009843200000 = 0"
  "getUTCDate 1009843200000 = 1"
  by (simp_all add: getUTCFullYear_def getUTCMonth_def getUTCDate_def civil_2002)

lemma numberString_values:
  "numberString 2001 = js ''2001''" "numberString 2002 = js ''2002''"
  "numberString 1 = js ''1''"
  by (simp_all add: numberString_def digits_2001 digits_2002 digits_1)

lemma toISOString_reference:
  "toISOString 978307200000 = js ''2001-01-01T00:00:00.000Z''"
  by (simp add: toISOString_def fields_reference isoYear_def pad2_def padStart_def
      digits_2001 digits_1 js_def replicate_2 replicate_3)

text \<open>
  Claim C8. The reference instant is 978307200 seconds after the Unix epoch:
  \<open>coreDataTimestampToISO(0)\<close> is the ISO-8601 form of that instant, with
  milliseconds, \<open>dayIntegerToDate(0)\<close> is its calendar date and
  \<open>dayIntegerToDate(365)\<close> is the date 365 days later.
\<close>

theorem date_utilities_anchored:
  "CORE_DATA_EPOCH = 978307200 \<and>
   coreDataTimestampToISO 0 = Inr (toISOString (978307200 * 1000)) \<and>
   coreDataTimestampToISO 0 = Inr (js ''2001-01-01T00:00:00.000Z'') \<and>
   dayIntegerToDate 0 = js ''2001-01-01'' \<and>
   dayIntegerToDate 365 = js ''2002-01-01''"
proof (intro conjI)
  show "CORE_DATA_EPOCH = 978307200"
    by (simp add: CORE_DATA_EPOCH_def)
  have iso: "coreDataTimestampToISO 0 = Inr (toISOString 978307200000)"
    by (simp add: coreDataTimestampToISO_def CORE_DATA_EPOCH_def newDate_reference)
  then show "coreDataTimestampToISO 0 = Inr (toISOString (978307200 * 1000))"
    by simp
  show "coreDataTimestampToISO 0 = Inr (js ''2001-01-01T00:00:00.000Z'')"
    by (simp add: iso toISOString_reference)
  show "dayIntegerToDate 0 = js ''2001-01-01''"
    by (simp add: dayIntegerToDate_def CORE_DATA_EPOCH_def newDate_reference fields_reference
        numberString_values padStart_def js_def)
  show "dayIntegerToDate 365 = js ''2002-01-01''"
    by (simp add: dayIntegerToDate_def CORE_DATA_EPOCH_def newDate_365 fields_365
        numberString_values padStart_def js_def)
qed

section \<open>Properties of the queries\<close>

subsection \<open>Joins on a key\<close>







lemma map_sqlLimit: "map g (sqlLimit n xs) = sqlLimit n (map g xs)"
  by (simp add: sqlLimit_def take_map)

subsection \<open>Conversion of rows\<close>



lemma formatTodo_fields:
  assumes "formatTodo r tm cm = Inr t"
  shows "uuid t = r_uuid r" and "projectId t = r_projectId r"
    and "projectTitle t = r_projectTitle r"
    and "areaId t = r_areaId r" and "areaTitle t = r_areaTitle r"
    and "headingId t = r_headingId r"
  using assms by (auto simp: formatTodo_def bindE_def split: sum.splits)


lemma mapE_Inr:
  "mapE f xs = Inr ys \<Longrightarrow> list_all2 (\<lambda>x y. f x = Inr y) xs ys"
proof (induction xs arbitrary: ys)
  case Nil
  then show ?case by simp
next
  case (Cons x xs)
  from Cons.prems obtain y zs where "f x = Inr y" "mapE f xs = Inr zs" "ys = y # zs"
    by (auto simp: bindE_def split: sum.splits)
  then show ?case using Cons.IH by simp
qed











lemma projectRows_uuid: "row \<in> set (projectRows u db) \<Longrightarrow> pr_uuid row = u"
  by (auto simp: projectRows_def)

lemma projectTodoRows_title: "r \<in> set (projectTodoRows u db) \<Longrightarrow> r_projectTitle r = Some u"
  by (auto simp: projectTodoRows_def)

lemma mapE_Inr_set:
  assumes "mapE f xs = Inr ys" and "y \<in> set ys"
  shows "\<exists>x\<in>set xs. f x = Inr y"
proof -
  have "list_all2 (\<lambda>x y. f x = Inr y) xs ys" using assms(1) by (rule mapE_Inr)
  then show ?thesis using assms(2)
    by (induction rule: list_all2_induct) auto
qed

subsection \<open>The example stores\<close>

lemma exampleProject_fields:
  "t_uuid exampleProject = js ''proj-2''" "t_type exampleProject = 1"
  "t_project exampleProject = None" "t_area exampleProject = Some (js ''area-work'')"
  "t_heading exampleProject = None" "t_title exampleProject = js ''Work Project''"
  "t_trashed exampleProject = 0" "t_creationDate exampleProject = 0"
  "t_userModificationDate exampleProject = None" "t_stopDate exampleProject = None"
  "t_notes exampleProject = None" "t_index exampleProject = 0"
  by (simp_all add: exampleProject_def exampleTask_def)

lemma exampleTodo_fields:
  "t_uuid exampleTodo = js ''todo-1''" "t_type exampleTodo = 0"
  "t_project exampleTodo = Some (js ''proj-2'')" "t_area exampleTodo = None"
  "t_heading exampleTodo = None" "t_title exampleTodo = js ''Review PR''"
  "t_trashed exampleTodo = 0" "t_creationDate exampleTodo = 0"
  "t_userModificationDate exampleTodo = None" "t_stopDate exampleTodo = None"
  "t_notes exampleTodo = None" "t_index exampleTodo = 0"
  by (simp_all add: exampleTodo_def exampleTask_def)

lemma exampleArea_fields:
  "a_uuid exampleArea = js ''area-work''" "a_title exampleArea = js ''Work''"
  by (simp_all add: exampleArea_def)

lemma example_ids:
  "js ''todo-1'' \<noteq> js ''proj-2''" "js ''proj-2'' \<noteq> js ''todo-1''"
  by (simp_all add: js_def)

lemma joinTodos_example:
  "joinTodos exampleDb =
     [(((exampleProject, None), Some exampleArea), None),
      (((exampleTodo, Some exampleProject), Some exampleArea), None)]"
  by (simp add: joinTodos_def leftJoin_def exampleDb_def coalesce_def
      exampleProject_fields exampleTodo_fields exampleArea_fields example_ids)

lemma timestamp_zero: "coreDataTimestampToISO 0 = Inr (toISOString 978307200000)"
  by (simp add: coreDataTimestampToISO_def CORE_DATA_EPOCH_def newDate_reference)

lemma projectRows_example:
  "projectRows (js ''proj-2'') exampleDb =
     [\<lparr>pr_uuid = js ''proj-2'', pr_title = js ''Work Project'', pr_notes = None, pr_status = 0,
       pr_start = Some 1, pr_startDate = None, pr_deadline = None,
       pr_areaId = Some (js ''area-work''), pr_areaTitle = Some (js ''Work''),
       pr_creationDate = 0, pr_modificationDate = None, pr_completionDate = None,
       pr_openTodoCount = None, pr_totalTodoCount = None\<rparr>]"
  by (simp add: projectRows_def leftJoin_def exampleDb_def exampleProject_def exampleTodo_def
      exampleTask_def exampleArea_def example_ids)

lemma projectTodoRows_example:
  "projectTodoRows (js ''proj-2'') exampleDb =
     [\<lparr>r_uuid = js ''todo-1'', r_title = js ''Review PR'', r_notes = None, r_status = 0,
       r_start = Some 1, r_startDate = None, r_deadline = None, r_todayIndex = 0,
       r_projectId = Some (js ''proj-2''), r_projectTitle = Some (js ''proj-2''),
       r_areaId = None, r_areaTitle = None, r_headingId = None, r_headingTitle = None,
       r_creationDate = 0, r_modificationDate = None, r_completionDate = None\<rparr>]"
  by (simp add: projectTodoRows_def leftJoin_def exampleDb_def exampleProject_def exampleTodo_def
      exampleTask_def exampleArea_def example_ids)

lemma queryProjectById_example:
  "map_sum id (map_option (\<lambda>pd. (p_title pd, map title (todos pd))))
     (queryProjectById (js ''proj-2'') exampleDb) =
   Inr (Some (js ''Work Project'', [js ''Review PR'']))"
  by (simp add: queryProjectById_def projectRows_example projectTodoRows_example Let_def
      formatTodo_def optionalISO_def timestamp_zero bindE_def)








subsection \<open>Claims about the queries\<close>

text \<open>
  Claim C1 fails on the code. In the example store the to-do \<open>todo-1\<close> has no area of
  its own and its project has the area \<open>Work\<close>. \<open>queryTodoById\<close> resolves the
  inherited title, because the join is on \<open>COALESCE(t.area, p.area)\<close>, but the
  identifier it returns is the to-do's own column \<open>t.area\<close>, which is \<open>null\<close>.
\<close>

theorem queryTodoById_area_not_inherited:
  "t_area exampleTodo = None \<and> t_project exampleTodo = Some (t_uuid exampleProject) \<and>
   t_area exampleProject = Some (a_uuid exampleArea) \<and>
   map_sum id (map_option (\<lambda>t. (areaId t, areaTitle t)))
     (queryTodoById (js ''todo-1'') exampleDb) = Inr (Some (None, Some (js ''Work'')))"
  by (simp add: queryTodoById_def joinTodos_example selectTodo_def formatTodo_def bindE_def Let_def
      optionalISO_def timestamp_zero
      exampleProject_fields exampleTodo_fields exampleArea_fields example_ids)




text \<open>
  Claim C9. The result of \<open>queryTodos\<close> does not depend on the field \<open>tag\<close> of the
  filter set: the function never reads it.
\<close>

theorem queryTodos_ignores_tag:
  "queryTodos LIKE todayDays (filters\<lparr>f_tag := x\<rparr>) db = queryTodos LIKE todayDays filters db"
  unfolding queryTodos_def todoRows_def todoConditions_def todoOrder_def by simp

text \<open>
  Claim C10. In every project that \<open>queryProjectById\<close> returns, the field
  \<open>projectTitle\<close> of each child to-do is the identifier of the project, the value bound
  to \<open>$uuid\<close>, and not the title of the project.
\<close>

theorem queryProjectById_projectTitle:
  assumes "queryProjectById u db = Inr (Some pd)"
  shows "p_uuid pd = u \<and> (\<forall>t\<in>set (todos pd). projectTitle t = Some (p_uuid pd))"
proof -
  define rows where "rows = projectTodoRows u db"
  define tm where "tm = (if length (map r_uuid rows) > 0 then batchLoadTags db (map r_uuid rows) else Map.empty)"
  define cm where "cm = (if length (map r_uuid rows) > 0 then batchLoadChecklists db (map r_uuid rows) else Map.empty)"
  define fmt where "fmt = (\<lambda>r. bindE (formatTodo r tm cm) (\<lambda>t. Inr (t\<lparr>headingId := r_headingId r\<rparr>)))"
  from assms obtain row others where pr: "projectRows u db = row # others"
    by (cases "projectRows u db") (simp_all add: queryProjectById_def)
  from assms pr obtain ts where ts: "mapE fmt rows = Inr ts"
    and pd: "p_uuid pd = pr_uuid row" "todos pd = ts"
    unfolding queryProjectById_def Let_def fmt_def tm_def cm_def rows_def
    by (auto simp: bindE_def split: sum.splits)
  have "row \<in> set (projectRows u db)" using pr by simp
  then have u: "p_uuid pd = u" using pd(1) projectRows_uuid by simp
  have "projectTitle t = Some u" if "t \<in> set ts" for t
  proof -
    from mapE_Inr_set [OF ts that] obtain r where r: "r \<in> set rows" and f: "fmt r = Inr t"
      by blast
    from f obtain t0 where t0: "formatTodo r tm cm = Inr t0" and t: "t = t0\<lparr>headingId := r_headingId r\<rparr>"
      by (auto simp: fmt_def bindE_def split: sum.splits)
    have "projectTitle t0 = r_projectTitle r" using t0 by (rule formatTodo_fields)
    then show ?thesis using t r projectTodoRows_title unfolding rows_def by simp
  qed
  then show ?thesis using u pd(2) by simp
qed

theorem queryProjectById_projectTitle_witness:
  "map_sum id (map_option (\<lambda>pd. (p_uuid pd, p_title pd, map title (todos pd),
       map projectTitle (todos pd))))
     (queryProjectById (js ''proj-2'') exampleDb) =
   Inr (Some (js ''proj-2'', js ''Work Project'', [js ''Review PR''], [Some (js ''proj-2'')]))"
proof -
  from queryProjectById_example obtain pd
    where q: "queryProjectById (js ''proj-2'') exampleDb = Inr (Some pd)"
      and t: "p_title pd = js ''Work Project''" "map title (todos pd) = [js ''Review PR'']"
    by (cases "queryProjectById (js ''proj-2'') exampleDb") auto
  from queryProjectById_projectTitle [OF q]
  have u: "p_uuid pd = js ''proj-2''"
    and p: "\<forall>t\<in>set (todos pd). projectTitle t = Some (p_uuid pd)" by simp_all
  from t(2) obtain x where x: "todos pd = [x]" by (cases "todos pd") auto
  then have "map projectTitle (todos pd) = [Some (js ''proj-2'')]" using p u by simp
  then show ?thesis using q t u by simp
qed

section \<open>Properties of the tool handlers\<close>

lemma requireAuthToken_unset:
  "env (js ''THINGS_AUTH_TOKEN'') = None \<or> env (js ''THINGS_AUTH_TOKEN'') = Some [] \<Longrightarrow>
   requireAuthToken env = Inl (Error authTokenMessage)"
  by (auto simp: requireAuthToken_def)

lemma buildJsonUrl_unset:
  "env (js ''THINGS_AUTH_TOKEN'') = None \<or> env (js ''THINGS_AUTH_TOKEN'') = Some [] \<Longrightarrow>
   buildJsonUrl itemsJson (getAuthToken env) reveal = buildJsonUrl itemsJson None reveal"
  by (auto simp: buildJsonUrl_def getAuthToken_def authParts_def)

text \<open>
  Claim C6. When the variable \<open>THINGS_AUTH_TOKEN\<close> is unset (or empty), the handlers of
  \<open>update-todo\<close> and \<open>update-project\<close> throw the error with the remediation text and
  no URL has been built or executed; so does the handler of \<open>add-json\<close> when one of
  its items is an update. When none of its items is an update, \<open>add-json\<close> builds and
  executes its URL without a credential. The results of the handlers of \<open>add-todo\<close>,
  \<open>add-project\<close> and of the six read tools do not depend on the environment.
\<close>

theorem update_requires_credential:
  assumes "env (js ''THINGS_AUTH_TOKEN'') = None \<or> env (js ''THINGS_AUTH_TOKEN'') = Some []"
  shows "updateTodoHandler env executeUrl updateTodo = (Inl (Error authTokenMessage), []) \<and>
         updateProjectHandler env executeUrl updateProject = (Inl (Error authTokenMessage), []) \<and>
         (list_ex isUpdate (aj_items bulk) \<longrightarrow>
            addJsonHandler env executeUrl stringifyItems bulk = (Inl (Error authTokenMessage), [])) \<and>
         (\<not> list_ex isUpdate (aj_items bulk) \<longrightarrow>
            addJsonHandler env executeUrl stringifyItems bulk =
              dispatch executeUrl (buildJsonUrl (stringifyItems (aj_items bulk)) None (aj_reveal bulk))
                (\<lambda>result. \<lparr>tr_text = addJsonText (length (aj_items bulk)) result,
                            tr_isError = False\<rparr>)) \<and>
         addTodoHandler env executeUrl addTodo = addTodoHandler env' executeUrl addTodo \<and>
         addProjectHandler env executeUrl addProject = addProjectHandler env' executeUrl addProject \<and>
         getTodosHandler env stringifyTodos message LIKE todayDays db filters =
           getTodosHandler env' stringifyTodos message LIKE todayDays db filters \<and>
         getTodoHandler env stringifyTodo message db u = getTodoHandler env' stringifyTodo message db u \<and>
         getProjectsHandler env stringifyProjects message LIKE db projectFilters =
           getProjectsHandler env' stringifyProjects message LIKE db projectFilters \<and>
         getProjectHandler env stringifyProject message db u =
           getProjectHandler env' stringifyProject message db u \<and>
         getAreasHandler env stringifyAreas message db = getAreasHandler env' stringifyAreas message db \<and>
         getTagsHandler env stringifyTags message db = getTagsHandler env' stringifyTags message db"
proof -
  have r: "requireAuthToken env = Inl (Error authTokenMessage)"
    using assms by (rule requireAuthToken_unset)
  have j: "buildJsonUrl s (getAuthToken env) rv = buildJsonUrl s None rv" for s rv
    using assms by (rule buildJsonUrl_unset)
  have update: "updateTodoHandler env executeUrl updateTodo = (Inl (Error authTokenMessage), [])"
    by (simp add: updateTodoHandler_def r)
  have updateProject:
    "updateProjectHandler env executeUrl updateProject = (Inl (Error authTokenMessage), [])"
    by (simp add: updateProjectHandler_def r)
  have bulkUpdate: "list_ex isUpdate (aj_items bulk) \<longrightarrow>
      addJsonHandler env executeUrl stringifyItems bulk = (Inl (Error authTokenMessage), [])"
    by (simp add: addJsonHandler_def r bindE_def)
  have bulkCreate: "\<not> list_ex isUpdate (aj_items bulk) \<longrightarrow>
      addJsonHandler env executeUrl stringifyItems bulk =
        dispatch executeUrl (buildJsonUrl (stringifyItems (aj_items bulk)) None (aj_reveal bulk))
          (\<lambda>result. \<lparr>tr_text = addJsonText (length (aj_items bulk)) result,
                      tr_isError = False\<rparr>)"
    by (simp add: addJsonHandler_def j)
  have reads:
    "getTodosHandler env stringifyTodos message LIKE todayDays db filters =
       getTodosHandler env' stringifyTodos message LIKE todayDays db filters"
    "getTodoHandler env stringifyTodo message db u = getTodoHandler env' stringifyTodo message db u"
    "getProjectsHandler env stringifyProjects message LIKE db projectFilters =
       getProjectsHandler env' stringifyProjects message LIKE db projectFilters"
    "getProjectHandler env stringifyProject message db u =
       getProjectHandler env' stringifyProject message db u"
    "getAreasHandler env stringifyAreas message db = getAreasHandler env' stringifyAreas message db"
    "getTagsHandler env stringifyTags message db = getTagsHandler env' stringifyTags message db"
    by (simp_all add: getTodosHandler_def getTodoHandler_def getProjectsHandler_def
        getProjectHandler_def getAreasHandler_def getTagsHandler_def)
  have adds:
    "addTodoHandler env executeUrl addTodo = addTodoHandler env' executeUrl addTodo"
    "addProjectHandler env executeUrl addProject = addProjectHandler env' executeUrl addProject"
    by (simp_all add: addTodoHandler_def addProjectHandler_def)
  from update updateProject bulkUpdate bulkCreate adds reads show ?thesis by blast
qed

lemma exampleAdd_url:
  "buildUrl Add (addTodoUrlParams exampleAdd) None =
     Inr (js ''things:///x-callback-url/add?title=Buy%20milk&tags=work%2Curgent'')"
  by (simp add: addTodoUrlParams_def exampleAdd_def optStr_def optBool_def optJoin_def
      buildUrl_def authParts_def encode_def bindE_def js_def uriUnreserved_def
      isLeadSurrogate_def isTrailSurrogate_def pctCodePoint_def utf8_def pctOctet_def hexDigit_def)

lemma exampleUpdate_url:
  "buildUrl Update (updateTodoUrlParams exampleUpdate) (Some (js ''secret'')) =
     Inr (js ''things:///x-callback-url/update?auth-token=secret&id=abc&title=New%20title&deadline='')"
  by (simp add: updateTodoUrlParams_def exampleUpdate_def optStr_def optBool_def optJoin_def
      buildUrl_def authParts_def encode_def bindE_def js_def uriUnreserved_def
      isLeadSurrogate_def isTrailSurrogate_def pctCodePoint_def utf8_def pctOctet_def hexDigit_def)

lemma exampleAdd_label:
  "addTodoLabel exampleAdd = js ''to-do '' @ [0x22] @ js ''Buy milk'' @ [0x22]"
  by (simp add: addTodoLabel_def truthyStr_def exampleAdd_def js_def)

lemma exampleUpdate_id: "js ''Updated to-do '' @ ut_id exampleUpdate = js ''Updated to-do abc''"
  by (simp add: exampleUpdate_def js_def)

lemma exampleBulkCreate_url:
  "buildJsonUrl (exampleStringify (aj_items exampleBulkCreate)) None (aj_reveal exampleBulkCreate) =
     Inr (js ''things:///x-callback-url/json?data=%5B%7B%22type%22%3A%22to-do%22%7D%5D'')"
  by (simp add: buildJsonUrl_def exampleStringify_def exampleBulkCreate_def authParts_def
      bindE_def js_def uriUnreserved_def isLeadSurrogate_def isTrailSurrogate_def
      pctCodePoint_def utf8_def pctOctet_def hexDigit_def)

lemma exampleBulkCreate_text:
  "addJsonText (length (aj_items exampleBulkCreate))
     \<lparr>success = True, thingsId = None, callbackParams = None\<rparr> = js ''Processed 1 item''"
  by (simp add: addJsonText_def exampleBulkCreate_def idsInfo_def numberString_def
      digits_small js_def)

lemma exampleBulk_updates:
  "list_ex isUpdate (aj_items exampleBulkUpdate)" "\<not> list_ex isUpdate (aj_items exampleBulkCreate)"
  by (simp_all add: exampleBulkUpdate_def exampleBulkCreate_def exampleCreateItem_def
      exampleUpdateItem_def isUpdate_def js_def)

theorem update_requires_credential_witness:
  "Map.empty (js ''THINGS_AUTH_TOKEN'') = (None :: jsstring option) \<and>
   updateTodoHandler Map.empty exampleExecute exampleUpdate = (Inl (Error authTokenMessage), []) \<and>
   updateProjectHandler Map.empty exampleExecute exampleUpdateProject =
     (Inl (Error authTokenMessage), []) \<and>
   list_ex isUpdate (aj_items exampleBulkUpdate) \<and>
   addJsonHandler Map.empty exampleExecute exampleStringify exampleBulkUpdate =
     (Inl (Error authTokenMessage), []) \<and>
   \<not> list_ex isUpdate (aj_items exampleBulkCreate) \<and>
   addJsonHandler Map.empty exampleExecute exampleStringify exampleBulkCreate =
     (Inr \<lparr>tr_text = js ''Processed 1 item'', tr_isError = False\<rparr>,
      [UrlBuilt (js ''things:///x-callback-url/json?data=%5B%7B%22type%22%3A%22to-do%22%7D%5D''),
       UrlExecuted (js ''things:///x-callback-url/json?data=%5B%7B%22type%22%3A%22to-do%22%7D%5D'')]) \<and>
   addTodoHandler Map.empty exampleExecute exampleAdd =
     addTodoHandler [js ''THINGS_AUTH_TOKEN'' \<mapsto> js ''secret''] exampleExecute exampleAdd \<and>
   addTodoHandler Map.empty exampleExecute exampleAdd =
     (Inr \<lparr>tr_text = js ''Created to-do '' @ [0x22] @ js ''Buy milk'' @ [0x22], tr_isError = False\<rparr>,
      [UrlBuilt (js ''things:///x-callback-url/add?title=Buy%20milk&tags=work%2Curgent''),
       UrlExecuted (js ''things:///x-callback-url/add?title=Buy%20milk&tags=work%2Curgent'')]) \<and>
   updateTodoHandler [js ''THINGS_AUTH_TOKEN'' \<mapsto> js ''secret''] exampleExecute exampleUpdate =
     (Inr \<lparr>tr_text = js ''Updated to-do abc'', tr_isError = False\<rparr>,
      [UrlBuilt (js ''things:///x-callback-url/update?auth-token=secret&id=abc&title=New%20title&deadline=''),
       UrlExecuted (js ''things:///x-callback-url/update?auth-token=secret&id=abc&title=New%20title&deadline='')])"
proof -
  have h: "Map.empty (js ''THINGS_AUTH_TOKEN'') = (None :: jsstring option) \<or>
      Map.empty (js ''THINGS_AUTH_TOKEN'') = Some ([] :: jsstring)" by simp
  note t = update_requires_credential [OF h, of exampleExecute exampleUpdate exampleUpdateProject
      exampleBulkUpdate exampleStringify exampleAdd "[js ''THINGS_AUTH_TOKEN'' \<mapsto> js ''secret'']"]
  note c = update_requires_credential [OF h, of exampleExecute exampleUpdate exampleUpdateProject
      exampleBulkCreate exampleStringify]
  have bu: "addJsonHandler Map.empty exampleExecute exampleStringify exampleBulkUpdate =
     (Inl (Error authTokenMessage), [])"
    using t exampleBulk_updates(1) by blast
  have bc0: "addJsonHandler Map.empty exampleExecute exampleStringify exampleBulkCreate =
     dispatch exampleExecute
       (buildJsonUrl (exampleStringify (aj_items exampleBulkCreate)) None (aj_reveal exampleBulkCreate))
       (\<lambda>result. \<lparr>tr_text = addJsonText (length (aj_items exampleBulkCreate)) result,
                   tr_isError = False\<rparr>)"
    using c exampleBulk_updates(2) by blast
  have bc: "addJsonHandler Map.empty exampleExecute exampleStringify exampleBulkCreate =
     (Inr \<lparr>tr_text = js ''Processed 1 item'', tr_isError = False\<rparr>,
      [UrlBuilt (js ''things:///x-callback-url/json?data=%5B%7B%22type%22%3A%22to-do%22%7D%5D''),
       UrlExecuted (js ''things:///x-callback-url/json?data=%5B%7B%22type%22%3A%22to-do%22%7D%5D'')])"
    unfolding bc0 exampleBulkCreate_url
    by (simp add: dispatch_def exampleExecute_def exampleBulkCreate_text)
  have a: "addTodoHandler Map.empty exampleExecute exampleAdd =
     (Inr \<lparr>tr_text = js ''Created to-do '' @ [0x22] @ js ''Buy milk'' @ [0x22], tr_isError = False\<rparr>,
      [UrlBuilt (js ''things:///x-callback-url/add?title=Buy%20milk&tags=work%2Curgent''),
       UrlExecuted (js ''things:///x-callback-url/add?title=Buy%20milk&tags=work%2Curgent'')])"
    by (simp add: addTodoHandler_def exampleAdd_url dispatch_def exampleExecute_def idInfo_def
        exampleAdd_label) (simp add: js_def)
  have r: "requireAuthToken [js ''THINGS_AUTH_TOKEN'' \<mapsto> js ''secret''] = Inr (js ''secret'')"
    by (simp add: requireAuthToken_def js_def)
  have b: "updateTodoHandler [js ''THINGS_AUTH_TOKEN'' \<mapsto> js ''secret''] exampleExecute exampleUpdate =
     (Inr \<lparr>tr_text = js ''Updated to-do abc'', tr_isError = False\<rparr>,
      [UrlBuilt (js ''things:///x-callback-url/update?auth-token=secret&id=abc&title=New%20title&deadline=''),
       UrlExecuted (js ''things:///x-callback-url/update?auth-token=secret&id=abc&title=New%20title&deadline='')])"
    by (simp add: updateTodoHandler_def r exampleUpdate_url dispatch_def exampleExecute_def idInfo_def
        exampleUpdate_id)
  have t1: "updateTodoHandler Map.empty exampleExecute exampleUpdate = (Inl (Error authTokenMessage), [])"
    using t by blast
  have t2: "updateProjectHandler Map.empty exampleExecute exampleUpdateProject =
     (Inl (Error authTokenMessage), [])"
    using t by blast
  have t3: "addTodoHandler Map.empty exampleExecute exampleAdd =
     addTodoHandler [js ''THINGS_AUTH_TOKEN'' \<mapsto> js ''secret''] exampleExecute exampleAdd"
    using t by blast
  show ?thesis using t1 t2 t3 bu bc a b exampleBulk_updates by simp
qed
end
